theory Spec2Isabelle
  imports Complex_Main
begin

section \<open>Documents of the restaurant point of sale\<close>

text \<open>
  The program stores its data as framework documents with free-text status fields. Each
  document type used by the order and kitchen API becomes a record; a table of the database
  is the list of its rows, looked up by the \<open>name\<close> field. Amounts of money are Python
  floats in the source (\<open>flt\<close> converts to float and, without a precision, does not round);
  they are idealised as exact rationals, and the statements below use an amount only where
  the float computation is exact (a product with 0, a sum with 0, the amounts of an order
  without lines). A timestamp is the reading of \<open>now_datetime()\<close>, passed to each request
  as \<open>now\<close>. Fields that no operation below reads (Arabic names, notes, table numbers,
  priority) are left out. Realtime notifications are not modelled. A row that a request
  has written stays written when the request then catches an exception: no endpoint rolls
  back.
\<close>

type_synonym time = nat

text \<open>Kitchen Order Item: a line of a kitchen ticket.\<close>

record kot_item =
  ki_name :: string
  ki_order_item :: "string option"
  ki_menu_item :: string
  ki_item_name :: string
  ki_qty :: int
  ki_status :: string
  ki_started_at :: "time option"
  ki_completed_at :: "time option"

text \<open>Kitchen Order: a ticket (KOT) of one station.\<close>

record kitchen_order =
  ko_name :: string
  ko_restaurant_order :: string
  ko_branch :: string
  ko_kitchen_station :: string
  ko_status :: string
  ko_is_additional :: bool
  ko_started_at :: "time option"
  ko_completed_at :: "time option"
  ko_served_at :: "time option"
  ko_items :: "kot_item list"

text \<open>Restaurant Order Item: a line of a customer order.\<close>

record order_item =
  oi_name :: string
  oi_menu_item :: string
  oi_item_code :: string
  oi_item_name :: string
  oi_qty :: int
  oi_rate :: rat
  oi_amount :: rat
  oi_kitchen_station :: "string option"
  oi_preparation_time :: int
  oi_tax_rate :: "rat option"
  oi_status :: string

record restaurant_order =
  ro_name :: string
  ro_table :: string
  ro_branch :: string
  ro_status :: string
  ro_total_qty :: rat
  ro_subtotal :: rat
  ro_service_charge :: rat
  ro_service_charge_percent :: rat
  ro_vat :: rat
  ro_vat_percent :: rat
  ro_tax_amount :: rat
  ro_tip_amount :: "rat option"
  ro_discount_amount :: "rat option"
  ro_grand_total :: rat
  ro_estimated_preparation_time :: int
  ro_items :: "order_item list"

record restaurant_settings =
  service_charge_percent :: "rat option"
  vat_percent :: "rat option"

record menu_item =
  mi_name :: string
  mi_item_code :: string
  mi_item_name :: string
  mi_price :: rat
  mi_enabled :: bool
  mi_kitchen_station :: "string option"
  mi_preparation_time_minutes :: "int option"

record restaurant_table =
  rt_name :: string
  rt_qr_code :: string
  rt_enabled :: bool
  rt_branch :: string

record db =
  db_orders :: "restaurant_order list"
  db_kots :: "kitchen_order list"
  db_menu :: "menu_item list"
  db_tables :: "restaurant_table list"
  db_settings :: restaurant_settings

text \<open>
  What a request can raise: \<open>frappe.get_doc\<close> on a missing document,
  \<open>frappe.throw\<close> in a controller's \<open>validate\<close>, and an import of a module that does not
  exist (with the dotted name that was not found, as the list of its components). Every
  endpoint catches the exception and answers with a failure.
\<close>

datatype exn =
  DoesNotExistError string string | ValidationError string | ModuleNotFoundError "string list"

datatype 'a response = Success 'a | Rejected string "string list" | Raised exn

text \<open>Python truth of an optional string: \<open>None\<close> and the empty string are false.\<close>

fun truthy :: "string option \<Rightarrow> bool" where
  "truthy None = False"
| "truthy (Some s) = (s \<noteq> [])"

text \<open>\<open>flt\<close> of a field that may be unset: \<open>flt(None)\<close> is 0.\<close>

fun flt :: "rat option \<Rightarrow> rat" where
  "flt None = 0"
| "flt (Some x) = x"

subsection \<open>Imports that run inside a function\<close>

text \<open>
  Some functions of the repository import one of its modules when they are called
  (api/order.py line 176, doctype/kitchen\_order/kitchen\_order.py line 20). The root package
  is the directory of \<open>hooks.py\<close>, which names the modules of the repository as
  \<open>restaurant_pos.restaurant_pos.api.kitchen\<close> and so on. These are the packages and modules
  of the repository, each as the list of the components of its dotted name.
\<close>

definition repository_modules :: "string list list" where
  "repository_modules =
     [[''restaurant_pos''],
      [''restaurant_pos'', ''hooks''],
      [''restaurant_pos'', ''www''],
      [''restaurant_pos'', ''www'', ''kitchen''],
      [''restaurant_pos'', ''www'', ''menu''],
      [''restaurant_pos'', ''restaurant_pos''],
      [''restaurant_pos'', ''restaurant_pos'', ''api''],
      [''restaurant_pos'', ''restaurant_pos'', ''api'', ''boot''],
      [''restaurant_pos'', ''restaurant_pos'', ''api'', ''kitchen''],
      [''restaurant_pos'', ''restaurant_pos'', ''api'', ''menu''],
      [''restaurant_pos'', ''restaurant_pos'', ''api'', ''order''],
      [''restaurant_pos'', ''restaurant_pos'', ''api'', ''table''],
      [''restaurant_pos'', ''restaurant_pos'', ''api'', ''waiter''],
      [''restaurant_pos'', ''restaurant_pos'', ''doctype''],
      [''restaurant_pos'', ''restaurant_pos'', ''doctype'', ''kitchen_order''],
      [''restaurant_pos'', ''restaurant_pos'', ''doctype'', ''kitchen_order'', ''kitchen_order''],
      [''restaurant_pos'', ''restaurant_pos'', ''doctype'', ''menu_category''],
      [''restaurant_pos'', ''restaurant_pos'', ''doctype'', ''menu_category'', ''menu_category''],
      [''restaurant_pos'', ''restaurant_pos'', ''doctype'', ''menu_item''],
      [''restaurant_pos'', ''restaurant_pos'', ''doctype'', ''menu_item'', ''menu_item''],
      [''restaurant_pos'', ''restaurant_pos'', ''doctype'', ''pos_printer''],
      [''restaurant_pos'', ''restaurant_pos'', ''doctype'', ''pos_printer'', ''pos_printer''],
      [''restaurant_pos'', ''restaurant_pos'', ''doctype'', ''restaurant_order''],
      [''restaurant_pos'', ''restaurant_pos'', ''doctype'', ''restaurant_order'', ''restaurant_order''],
      [''restaurant_pos'', ''restaurant_pos'', ''doctype'', ''restaurant_settings''],
      [''restaurant_pos'', ''restaurant_pos'', ''doctype'', ''restaurant_settings'', ''restaurant_settings''],
      [''restaurant_pos'', ''restaurant_pos'', ''doctype'', ''restaurant_table''],
      [''restaurant_pos'', ''restaurant_pos'', ''doctype'', ''restaurant_table'', ''restaurant_table''],
      [''restaurant_pos'', ''restaurant_pos'', ''doctype'', ''table_session''],
      [''restaurant_pos'', ''restaurant_pos'', ''doctype'', ''table_session'', ''table_session''],
      [''restaurant_pos'', ''restaurant_pos'', ''doctype'', ''waiter_call''],
      [''restaurant_pos'', ''restaurant_pos'', ''doctype'', ''waiter_call'', ''waiter_call''],
      [''restaurant_pos'', ''restaurant_pos'', ''events''],
      [''restaurant_pos'', ''restaurant_pos'', ''events'', ''pos_invoice''],
      [''restaurant_pos'', ''restaurant_pos'', ''events'', ''restaurant_order''],
      [''restaurant_pos'', ''restaurant_pos'', ''events'', ''stock_entry''],
      [''restaurant_pos'', ''restaurant_pos'', ''install''],
      [''restaurant_pos'', ''restaurant_pos'', ''permissions''],
      [''restaurant_pos'', ''restaurant_pos'', ''tasks''],
      [''restaurant_pos'', ''restaurant_pos'', ''utils''],
      [''restaurant_pos'', ''restaurant_pos'', ''utils'', ''jinja_methods'']]"

text \<open>
  An import walks the dotted name from the left and raises for the first prefix that is
  neither a package nor a module.
\<close>

fun missing_module :: "string list \<Rightarrow> string list \<Rightarrow> string list option" where
  "missing_module found [] = None"
| "missing_module found (c # cs) =
     (if found @ [c] \<in> set repository_modules then missing_module (found @ [c]) cs
      else Some (found @ [c]))"

definition import_module :: "string list \<Rightarrow> exn + unit" where
  "import_module path =
     (case missing_module [] path of
        None \<Rightarrow> Inr ()
      | Some m \<Rightarrow> Inl (ModuleNotFoundError m))"

subsection \<open>Reading and writing documents\<close>

definition get_order :: "db \<Rightarrow> string \<Rightarrow> restaurant_order option" where
  "get_order d n = find (\<lambda>x. ro_name x = n) (db_orders d)"

definition get_kot :: "db \<Rightarrow> string \<Rightarrow> kitchen_order option" where
  "get_kot d n = find (\<lambda>k. ko_name k = n) (db_kots d)"

text \<open>
  \<open>frappe.db.set_value("Restaurant Order", name, "status", v)\<close>: a direct update of the
  row, which runs no controller hook and does nothing when no row has that name.
\<close>

definition set_order_status :: "string \<Rightarrow> string \<Rightarrow> db \<Rightarrow> db" where
  "set_order_status n v d =
     d\<lparr>db_orders := map (\<lambda>x. if ro_name x = n then x\<lparr>ro_status := v\<rparr> else x) (db_orders d)\<rparr>"

text \<open>\<open>frappe.db.set_value("Restaurant Order Item", name, "status", v)\<close> on a child row.\<close>

definition set_order_item_status :: "string \<Rightarrow> string \<Rightarrow> db \<Rightarrow> db" where
  "set_order_item_status n v d =
     d\<lparr>db_orders :=
         map (\<lambda>x. x\<lparr>ro_items :=
                map (\<lambda>i. if oi_name i = n then i\<lparr>oi_status := v\<rparr> else i) (ro_items x)\<rparr>)
             (db_orders d)\<rparr>"

subsection \<open>The order controller (doctype/restaurant\_order/restaurant\_order.py)\<close>

text \<open>\<open>RestaurantOrder.calculate_tax\<close>: the sum of the per-line taxes.\<close>

definition calculate_tax :: "order_item list \<Rightarrow> rat" where
  "calculate_tax items =
     sum_list (map (\<lambda>i. case oi_tax_rate i of
                            None \<Rightarrow> 0
                          | Some r \<Rightarrow> if r \<noteq> 0 then oi_amount i * r / 100 else 0) items)"

text \<open>
  \<open>RestaurantOrder.calculate_totals\<close>, which \<open>validate\<close> runs on every insert and save of
  an order.
\<close>

definition calculate_totals :: "restaurant_settings \<Rightarrow> restaurant_order \<Rightarrow> restaurant_order" where
  "calculate_totals st order =
     (let items = map (\<lambda>i. i\<lparr>oi_amount := oi_rate i * of_int (oi_qty i)\<rparr>) (ro_items order);
          total_qty = sum_list (map (\<lambda>i. of_int (oi_qty i)) items);
          subtotal = sum_list (map oi_amount items);
          service_charge =
            (case service_charge_percent st of
               None \<Rightarrow> 0
             | Some p \<Rightarrow> if p \<noteq> 0 then subtotal * p / 100 else 0);
          tax_amount = calculate_tax items
      in order\<lparr>ro_items := items,
               ro_total_qty := total_qty,
               ro_subtotal := subtotal,
               ro_service_charge := service_charge,
               ro_tax_amount := tax_amount,
               ro_grand_total :=
                 subtotal + tax_amount + service_charge
                   + flt (ro_tip_amount order) - flt (ro_discount_amount order)\<rparr>)"

text \<open>
  \<open>order.save()\<close>: \<open>validate\<close> recomputes the totals, then the row is written.
  (\<open>on_update\<close> only records the current order on a Restaurant Table, which is not part
  of this model.)
\<close>

definition save_order :: "restaurant_order \<Rightarrow> db \<Rightarrow> db" where
  "save_order order d =
     (let order' = calculate_totals (db_settings d) order
      in d\<lparr>db_orders := map (\<lambda>x. if ro_name x = ro_name order' then order' else x) (db_orders d)\<rparr>)"

section \<open>Kitchen API (api/kitchen.py)\<close>

subsection \<open>The order status reconciler\<close>

text \<open>The status derived from the tickets' statuses, lines 206 to 213.\<close>

definition new_status_of :: "string list \<Rightarrow> string" where
  "new_status_of statuses =
     (if list_all (\<lambda>s. s = ''Ready'') statuses then ''Ready''
      else if list_ex (\<lambda>s. s = ''Preparing'') statuses then ''Preparing''
      else if list_all (\<lambda>s. s = ''New'') statuses then ''Confirmed''
      else ''Preparing'')"

text \<open>
  \<open>update_restaurant_order_status\<close>. A missing order raises inside the \<open>try\<close> and is
  logged: the database is left as it was.
\<close>

definition update_restaurant_order_status :: "string \<Rightarrow> db \<Rightarrow> db" where
  "update_restaurant_order_status order_name d =
     (let kots = filter (\<lambda>k. ko_restaurant_order k = order_name) (db_kots d)
      in if kots = [] then d
         else let statuses = map ko_status kots;
                  new_status = new_status_of statuses
              in case get_order d order_name of
                   None \<Rightarrow> d
                 | Some order \<Rightarrow>
                     if ro_status order \<notin> set [''Served'', ''Completed'', ''Cancelled'', ''Paid'']
                     then save_order (order\<lparr>ro_status := new_status\<rparr>) d
                     else d)"

subsection \<open>The ticket controller (doctype/kitchen\_order/kitchen\_order.py)\<close>

text \<open>
  \<open>KitchenOrder.on_update\<close> runs \<open>from restaurant_pos.api.kitchen import
  update_restaurant_order_status\<close> and then the reconciler on the ticket's order.
\<close>

definition kitchen_order_on_update :: "kitchen_order \<Rightarrow> db \<Rightarrow> exn + db" where
  "kitchen_order_on_update kot d =
     (case import_module [''restaurant_pos'', ''api'', ''kitchen''] of
        Inl e \<Rightarrow> Inl e
      | Inr u \<Rightarrow> Inr (update_restaurant_order_status (ko_restaurant_order kot) d))"

text \<open>
  \<open>kot.save()\<close>: \<open>validate\<close> throws on a ticket without lines; otherwise the row is
  written and \<open>on_update\<close> runs. The result is the exception raised, if any, and the
  database as it is then.
\<close>

definition save_kot :: "kitchen_order \<Rightarrow> db \<Rightarrow> exn option \<times> db" where
  "save_kot kot d =
     (if ko_items kot = [] then (Some (ValidationError ''Kitchen order must have at least one item''), d)
      else (let d1 = d\<lparr>db_kots := map (\<lambda>k. if ko_name k = ko_name kot then kot else k) (db_kots d)\<rparr>
            in case kitchen_order_on_update kot d1 of
                 Inl e \<Rightarrow> (Some e, d1)
               | Inr d2 \<Rightarrow> (None, d2)))"

subsection \<open>update\_order\_status\<close>

text \<open>The loop over the lines with its \<open>break\<close>: only the first line named \<open>item_id\<close> changes.\<close>

fun update_item :: "string \<Rightarrow> string \<Rightarrow> time \<Rightarrow> kot_item list \<Rightarrow> kot_item list" where
  "update_item item_id status now [] = []"
| "update_item item_id status now (item # items) =
     (if ki_name item = item_id
      then (let item1 = item\<lparr>ki_status := status\<rparr>;
                item2 = (if status = ''Preparing'' then item1\<lparr>ki_started_at := Some now\<rparr>
                         else if status = ''Ready'' then item1\<lparr>ki_completed_at := Some now\<rparr>
                         else item1)
            in item2 # items)
      else item # update_item item_id status now items)"

text \<open>The in-memory changes of \<open>update_order_status\<close> before \<open>kot.save()\<close>, lines 108 to 140.\<close>

definition apply_status :: "string \<Rightarrow> string option \<Rightarrow> time \<Rightarrow> kitchen_order \<Rightarrow> kitchen_order" where
  "apply_status status item_id now kot =
     (if truthy item_id
      then (let kot1 = kot\<lparr>ko_items := update_item (the item_id) status now (ko_items kot)\<rparr>;
                all_ready = list_all (\<lambda>item. ki_status item = ''Ready'') (ko_items kot1)
            in if all_ready then kot1\<lparr>ko_status := ''Ready'', ko_completed_at := Some now\<rparr>
               else kot1)
      else (let kot1 = kot\<lparr>ko_status := status\<rparr>
            in if status = ''Preparing''
               then kot1\<lparr>ko_started_at := Some now,
                         ko_items := map (\<lambda>item. if ki_status item = ''Pending''
                                                   then item\<lparr>ki_status := ''Preparing'',
                                                             ki_started_at := Some now\<rparr>
                                                   else item) (ko_items kot1)\<rparr>
               else if status = ''Ready''
               then kot1\<lparr>ko_completed_at := Some now,
                         ko_items := map (\<lambda>item. if ki_status item \<noteq> ''Ready''
                                                   then item\<lparr>ki_status := ''Ready'',
                                                             ki_completed_at := Some now\<rparr>
                                                   else item) (ko_items kot1)\<rparr>
               else kot1))"

text \<open>
  The endpoint. An exception is caught and answered with \<open>success: False\<close> and its
  message; otherwise the reconciler runs once more and the response carries the ticket id
  and its new status.
\<close>

definition update_order_status ::
  "string \<Rightarrow> string \<Rightarrow> string option \<Rightarrow> time \<Rightarrow> db \<Rightarrow> (string \<times> string) response \<times> db" where
  "update_order_status kot_id status item_id now d =
     (case get_kot d kot_id of
        None \<Rightarrow> (Raised (DoesNotExistError ''Kitchen Order'' kot_id), d)
      | Some kot0 \<Rightarrow>
          (let kot = apply_status status item_id now kot0
           in case save_kot kot d of
                (Some e, d1) \<Rightarrow> (Raised e, d1)
              | (None, d1) \<Rightarrow>
                  (Success (kot_id, ko_status kot),
                   update_restaurant_order_status (ko_restaurant_order kot) d1)))"

subsection \<open>bump\_order and recall\_order\<close>

definition all_served :: "string \<Rightarrow> db \<Rightarrow> bool" where
  "all_served order_name d =
     (\<not> list_ex (\<lambda>k. ko_restaurant_order k = order_name
                      \<and> ko_status k \<notin> set [''Served'', ''Cancelled'']) (db_kots d))"

text \<open>The loop of lines 275 to 282 over the ticket's lines.\<close>

fun serve_order_items :: "kot_item list \<Rightarrow> db \<Rightarrow> db" where
  "serve_order_items [] d = d"
| "serve_order_items (item # items) d =
     serve_order_items items
       (if truthy (ki_order_item item)
        then set_order_item_status (the (ki_order_item item)) ''Served'' d
        else d)"

definition bump_order :: "string \<Rightarrow> time \<Rightarrow> db \<Rightarrow> unit response \<times> db" where
  "bump_order kot_id now d =
     (case get_kot d kot_id of
        None \<Rightarrow> (Raised (DoesNotExistError ''Kitchen Order'' kot_id), d)
      | Some kot0 \<Rightarrow>
          (let kot = kot0\<lparr>ko_status := ''Served'', ko_served_at := Some now,
                          ko_items := map (\<lambda>item. item\<lparr>ki_status := ''Served''\<rparr>) (ko_items kot0)\<rparr>
           in case save_kot kot d of
                (Some e, d1) \<Rightarrow> (Raised e, d1)
              | (None, d1) \<Rightarrow>
                  (let d2 = (if all_served (ko_restaurant_order kot) d1
                             then set_order_status (ko_restaurant_order kot) ''Served'' d1
                             else d1)
                   in (Success (), serve_order_items (ko_items kot) d2))))"

definition recall_order :: "string \<Rightarrow> db \<Rightarrow> unit response \<times> db" where
  "recall_order kot_id d =
     (case get_kot d kot_id of
        None \<Rightarrow> (Raised (DoesNotExistError ''Kitchen Order'' kot_id), d)
      | Some kot0 \<Rightarrow>
          (let kot = kot0\<lparr>ko_status := ''Ready'', ko_served_at := None,
                          ko_items := map (\<lambda>item. item\<lparr>ki_status := ''Ready''\<rparr>) (ko_items kot0)\<rparr>
           in case save_kot kot d of
                (Some e, d1) \<Rightarrow> (Raised e, d1)
              | (None, d1) \<Rightarrow> (Success (), set_order_status (ko_restaurant_order kot) ''Ready'' d1)))"

section \<open>Menu API (api/menu.py): availability\<close>

text \<open>
  \<open>check_item_availability\<close> reads the bills of materials and the stock, which belong to
  the stock system and not to this repository; what it reads is given by a record:
  the name of the active default BOM of an item, the rows of a BOM (item code and
  quantity), the default warehouse of a branch, the stock system's \<open>get_stock_balance\<close>
  (\<open>None\<close> when it cannot be imported) and the sum of the quantities in the bins of an item
  (\<open>None\<close> for SQL \<open>NULL\<close>).
\<close>

record stock =
  sk_default_bom :: "string \<Rightarrow> string option"
  sk_bom_items :: "string \<Rightarrow> (string \<times> rat) list"
  sk_branch_warehouse :: "string \<Rightarrow> string option"
  sk_get_stock_balance :: "(string \<Rightarrow> string \<Rightarrow> rat) option"
  sk_bin_total :: "string \<Rightarrow> rat option"

text \<open>\<open>get_stock_qty\<close>: any exception gives 999.\<close>

definition get_stock_qty :: "stock \<Rightarrow> string \<Rightarrow> string option \<Rightarrow> rat" where
  "get_stock_qty sk item_code warehouse =
     (case sk_get_stock_balance sk of
        None \<Rightarrow> 999
      | Some get_stock_balance \<Rightarrow>
          if truthy warehouse then get_stock_balance item_code (the warehouse)
          else (case sk_bin_total sk item_code of
                  None \<Rightarrow> 0
                | Some q \<Rightarrow> if q \<noteq> 0 then q else 0))"

definition check_item_availability :: "stock \<Rightarrow> string \<Rightarrow> string \<Rightarrow> bool" where
  "check_item_availability sk item_code branch =
     (if \<not> truthy (sk_default_bom sk item_code) then True
      else (let bom_items = sk_bom_items sk (the (sk_default_bom sk item_code));
                warehouse = (if branch \<noteq> [] then sk_branch_warehouse sk branch else None)
            in list_all (\<lambda>(item_code, qty). \<not> get_stock_qty sk item_code warehouse < qty)
                 bom_items))"

section \<open>Order API (api/order.py)\<close>

subsection \<open>Validation of the requested entries\<close>

text \<open>
  An entry of the request, a JSON object. \<open>en_qty\<close> is the value of \<open>cint\<close> on the
  \<open>qty\<close> key, \<open>None\<close> when the key is absent (the source then takes 1). A modifier is
  read only for its \<open>additional_price\<close>.
\<close>

record modifier =
  md_name :: string
  md_additional_price :: "rat option"

record order_entry =
  en_item :: "string option"
  en_menu_item :: "string option"
  en_qty :: "int option"
  en_modifiers :: "modifier list"
  en_notes :: string

record validated_item =
  vi_menu_item :: string
  vi_item_code :: string
  vi_item_name :: string
  vi_qty :: int
  vi_rate :: rat
  vi_total :: rat
  vi_modifiers :: "modifier list"
  vi_notes :: string
  vi_kitchen_station :: "string option"
  vi_preparation_time :: int

text \<open>
  What one round of the loop of \<open>validate_order_items\<close> does with its entry: it skips
  it, appends an error, appends a validated line, or raises.
\<close>

datatype item_check = Dropped | Failed string | Validated validated_item | Raises exn

text \<open>\<open>item.get("item") or item.get("menu_item")\<close>.\<close>

definition menu_item_name_of :: "order_entry \<Rightarrow> string option" where
  "menu_item_name_of item = (if truthy (en_item item) then en_item item else en_menu_item item)"

text \<open>The name as an f-string prints it.\<close>

fun str_of :: "string option \<Rightarrow> string" where
  "str_of None = ''None''"
| "str_of (Some s) = s"

definition get_menu_item :: "db \<Rightarrow> string option \<Rightarrow> menu_item option" where
  "get_menu_item d n =
     (case n of None \<Rightarrow> None | Some s \<Rightarrow> find (\<lambda>m. mi_name m = s) (db_menu d))"

text \<open>The sum of the modifiers' additional prices, lines 183 to 187.\<close>

definition modifier_price_of :: "modifier list \<Rightarrow> rat" where
  "modifier_price_of mods =
     foldl (\<lambda>acc m. case md_additional_price m of
                       None \<Rightarrow> acc
                     | Some p \<Rightarrow> if p \<noteq> 0 then acc + p else acc) 0 mods"

text \<open>
  The body of the loop. Line 176, \<open>from restaurant_pos.api.menu import
  check_item_availability\<close>, runs in every round that reaches it.
\<close>

definition check_entry :: "stock \<Rightarrow> db \<Rightarrow> string \<Rightarrow> order_entry \<Rightarrow> item_check" where
  "check_entry sk d branch item =
     (let menu_item_name = menu_item_name_of item;
          qty = (case en_qty item of None \<Rightarrow> 1 | Some q \<Rightarrow> q);
          modifiers = en_modifiers item
      in if qty < 1 then Dropped
         else case get_menu_item d menu_item_name of
                None \<Rightarrow> Failed (''Item not found: '' @ str_of menu_item_name)
              | Some menu_item \<Rightarrow>
                  if \<not> mi_enabled menu_item
                  then Failed (''Item not available: '' @ mi_item_name menu_item)
                  else case import_module [''restaurant_pos'', ''api'', ''menu''] of
                         Inl e \<Rightarrow> Raises e
                       | Inr u \<Rightarrow>
                           if \<not> check_item_availability sk (mi_item_code menu_item) branch
                           then Failed (''Item out of stock: '' @ mi_item_name menu_item)
                           else (let base_price = mi_price menu_item;
                                     modifier_price = modifier_price_of modifiers;
                                     unit_price = base_price + modifier_price;
                                     total = unit_price * of_int qty
                                 in Validated
                                      \<lparr>vi_menu_item = mi_name menu_item,
                                       vi_item_code = mi_item_code menu_item,
                                       vi_item_name = mi_item_name menu_item,
                                       vi_qty = qty,
                                       vi_rate = unit_price,
                                       vi_total = total,
                                       vi_modifiers = modifiers,
                                       vi_notes = en_notes item,
                                       vi_kitchen_station = mi_kitchen_station menu_item,
                                       vi_preparation_time =
                                         (case mi_preparation_time_minutes menu_item of
                                            None \<Rightarrow> 10
                                          | Some t \<Rightarrow> if t \<noteq> 0 then t else 10)\<rparr>))"

text \<open>
  \<open>validate_order_items\<close>: the validated lines and the error strings, in request order,
  unless a round raises; the function catches nothing.
\<close>

fun validate_order_items ::
  "stock \<Rightarrow> db \<Rightarrow> order_entry list \<Rightarrow> string \<Rightarrow> exn + validated_item list \<times> string list" where
  "validate_order_items sk d [] branch = Inr ([], [])"
| "validate_order_items sk d (item # items) branch =
     (case check_entry sk d branch item of
        Raises e \<Rightarrow> Inl e
      | Dropped \<Rightarrow> validate_order_items sk d items branch
      | Failed e \<Rightarrow>
          (case validate_order_items sk d items branch of
             Inl x \<Rightarrow> Inl x
           | Inr (validated, errors) \<Rightarrow> Inr (validated, e # errors))
      | Validated v \<Rightarrow>
          (case validate_order_items sk d items branch of
             Inl x \<Rightarrow> Inl x
           | Inr (validated, errors) \<Rightarrow> Inr (v # validated, errors)))"

subsection \<open>Fan-out to kitchen tickets\<close>

text \<open>\<open>item.kitchen_station or "Main Kitchen"\<close>.\<close>

fun station_of :: "string option \<Rightarrow> string" where
  "station_of None = ''Main Kitchen''"
| "station_of (Some s) = (if s = [] then ''Main Kitchen'' else s)"

text \<open>
  The dictionary \<open>station_items\<close>, which keeps its keys in insertion order, is an
  association list; \<open>add_to_station\<close> is one round of the grouping loop.
\<close>

fun add_to_station :: "string \<Rightarrow> 'a \<Rightarrow> (string \<times> 'a list) list \<Rightarrow> (string \<times> 'a list) list" where
  "add_to_station station x [] = [(station, [x])]"
| "add_to_station station x ((s, xs) # rest) =
     (if s = station then (s, xs @ [x]) # rest else (s, xs) # add_to_station station x rest)"

definition group_by_station :: "('a \<Rightarrow> string) \<Rightarrow> 'a list \<Rightarrow> (string \<times> 'a list) list" where
  "group_by_station key items = foldl (\<lambda>acc x. add_to_station (key x) x acc) [] items"

text \<open>
  \<open>doc.insert()\<close> names the document and its child rows. The naming rule belongs to the
  framework: it is the parameter \<open>autoname\<close>, from the document type (or the parent's name,
  for a child row) and a sequence number.
\<close>

definition insert_kot ::
  "(string \<Rightarrow> nat \<Rightarrow> string) \<Rightarrow> kitchen_order \<Rightarrow> db \<Rightarrow> exn option \<times> db" where
  "insert_kot autoname kot d =
     (if ko_items kot = [] then (Some (ValidationError ''Kitchen order must have at least one item''), d)
      else (let n = autoname ''Kitchen Order'' (length (db_kots d));
                kot' = kot\<lparr>ko_name := n,
                           ko_items := map (\<lambda>(i, item). item\<lparr>ki_name := autoname n i\<rparr>)
                                           (enumerate 0 (ko_items kot))\<rparr>;
                d1 = d\<lparr>db_kots := db_kots d @ [kot']\<rparr>
            in case kitchen_order_on_update kot' d1 of
                 Inl e \<Rightarrow> (Some e, d1)
               | Inr d2 \<Rightarrow> (None, d2)))"

text \<open>Inserting the tickets one after the other; the first exception ends the loop.\<close>

fun insert_kots ::
  "(string \<Rightarrow> nat \<Rightarrow> string) \<Rightarrow> kitchen_order list \<Rightarrow> db \<Rightarrow> exn option \<times> db" where
  "insert_kots autoname [] d = (None, d)"
| "insert_kots autoname (kot # kots) d =
     (case insert_kot autoname kot d of
        (Some e, d1) \<Rightarrow> (Some e, d1)
      | (None, d1) \<Rightarrow> insert_kots autoname kots d1)"

text \<open>The tickets \<open>create_kitchen_orders\<close> builds from the lines of an order.\<close>

definition kitchen_orders_of :: "restaurant_order \<Rightarrow> kitchen_order list" where
  "kitchen_orders_of order =
     map (\<lambda>(station, items).
            \<lparr>ko_name = [],
             ko_restaurant_order = ro_name order,
             ko_branch = ro_branch order,
             ko_kitchen_station = station,
             ko_status = ''New'',
             ko_is_additional = False,
             ko_started_at = None,
             ko_completed_at = None,
             ko_served_at = None,
             ko_items =
               map (\<lambda>item. \<lparr>ki_name = [],
                             ki_order_item = Some (oi_name item),
                             ki_menu_item = oi_menu_item item,
                             ki_item_name = oi_item_name item,
                             ki_qty = oi_qty item,
                             ki_status = ''Pending'',
                             ki_started_at = None,
                             ki_completed_at = None\<rparr>) items\<rparr>)
         (group_by_station (\<lambda>item. station_of (oi_kitchen_station item)) (ro_items order))"

definition create_kitchen_orders ::
  "(string \<Rightarrow> nat \<Rightarrow> string) \<Rightarrow> restaurant_order \<Rightarrow> db \<Rightarrow> exn option \<times> db" where
  "create_kitchen_orders autoname order d = insert_kots autoname (kitchen_orders_of order) d"

text \<open>The tickets \<open>create_kitchen_orders_for_items\<close> builds from newly validated lines.\<close>

definition kitchen_orders_for_items :: "restaurant_order \<Rightarrow> validated_item list \<Rightarrow> kitchen_order list" where
  "kitchen_orders_for_items order new_items =
     map (\<lambda>(station, items).
            \<lparr>ko_name = [],
             ko_restaurant_order = ro_name order,
             ko_branch = ro_branch order,
             ko_kitchen_station = station,
             ko_status = ''New'',
             ko_is_additional = True,
             ko_started_at = None,
             ko_completed_at = None,
             ko_served_at = None,
             ko_items =
               map (\<lambda>item. \<lparr>ki_name = [],
                             ki_order_item = None,
                             ki_menu_item = vi_menu_item item,
                             ki_item_name = vi_item_name item,
                             ki_qty = vi_qty item,
                             ki_status = ''Pending'',
                             ki_started_at = None,
                             ki_completed_at = None\<rparr>) items\<rparr>)
         (group_by_station (\<lambda>item. station_of (vi_kitchen_station item)) new_items)"

definition create_kitchen_orders_for_items ::
  "(string \<Rightarrow> nat \<Rightarrow> string) \<Rightarrow> restaurant_order \<Rightarrow> validated_item list \<Rightarrow> db
     \<Rightarrow> exn option \<times> db" where
  "create_kitchen_orders_for_items autoname order new_items d =
     insert_kots autoname (kitchen_orders_for_items order new_items) d"

subsection \<open>place\_order\<close>

text \<open>\<open>x or dflt\<close> on a percentage of the settings: unset and 0 both give the default.\<close>

fun or_default :: "rat option \<Rightarrow> rat \<Rightarrow> rat" where
  "or_default None dflt = dflt"
| "or_default (Some x) dflt = (if x \<noteq> 0 then x else dflt)"

text \<open>\<open>order.insert()\<close>: names the order and its lines, runs \<open>validate\<close>, writes the row.\<close>

definition insert_order ::
  "(string \<Rightarrow> nat \<Rightarrow> string) \<Rightarrow> restaurant_order \<Rightarrow> db \<Rightarrow> restaurant_order \<times> db" where
  "insert_order autoname order d =
     (let n = autoname ''Restaurant Order'' (length (db_orders d));
          order' = calculate_totals (db_settings d)
                     (order\<lparr>ro_name := n,
                            ro_items := map (\<lambda>(i, item). item\<lparr>oi_name := autoname n i\<rparr>)
                                            (enumerate 0 (ro_items order))\<rparr>)
      in (order', d\<lparr>db_orders := db_orders d @ [order']\<rparr>))"

text \<open>The data of a successful answer.\<close>

record order_data =
  od_order_id :: string
  od_estimated_time :: int
  od_grand_total :: rat
  od_status :: string

text \<open>
  The order document that \<open>place_order\<close> builds before it inserts it, lines 62 to 111:
  the totals from the settings, and one line per validated item. The local variables
  \<open>grand_total\<close> and \<open>max_prep_time\<close> of the source are the values of the fields
  \<open>grand_total\<close> and \<open>estimated_preparation_time\<close> of this document.
\<close>

definition new_order ::
  "restaurant_table \<Rightarrow> restaurant_settings \<Rightarrow> validated_item list \<Rightarrow> restaurant_order" where
  "new_order table settings validated_items =
     (let subtotal = sum_list (map vi_total validated_items);
          service_charge = subtotal * or_default (service_charge_percent settings) 0 / 100;
          vat = (subtotal + service_charge) * or_default (vat_percent settings) 15 / 100;
          grand_total = subtotal + service_charge + vat;
          max_prep_time =
            foldl (\<lambda>m item. if vi_preparation_time item > m then vi_preparation_time item else m)
                  0 validated_items
      in \<lparr>ro_name = [],
          ro_table = rt_name table,
          ro_branch = rt_branch table,
          ro_status = ''New'',
          ro_total_qty = 0,
          ro_subtotal = subtotal,
          ro_service_charge = service_charge,
          ro_service_charge_percent = or_default (service_charge_percent settings) 0,
          ro_vat = vat,
          ro_vat_percent = or_default (vat_percent settings) 15,
          ro_tax_amount = 0,
          ro_tip_amount = None,
          ro_discount_amount = None,
          ro_grand_total = grand_total,
          ro_estimated_preparation_time = max_prep_time,
          ro_items =
            map (\<lambda>item. \<lparr>oi_name = [],
                          oi_menu_item = vi_menu_item item,
                          oi_item_code = vi_item_code item,
                          oi_item_name = vi_item_name item,
                          oi_qty = vi_qty item,
                          oi_rate = vi_rate item,
                          oi_amount = vi_total item,
                          oi_kitchen_station = vi_kitchen_station item,
                          oi_preparation_time = vi_preparation_time item,
                          oi_tax_rate = None,
                          oi_status = ''Pending''\<rparr>) validated_items\<rparr>)"

text \<open>
  \<open>place_order\<close>. The table session it opens is not modelled. An exception, in the
  validation or while the tickets are created, is answered with the generic failure; the
  rows written by then stay.
\<close>

definition place_order ::
  "stock \<Rightarrow> (string \<Rightarrow> nat \<Rightarrow> string) \<Rightarrow> string \<Rightarrow> order_entry list \<Rightarrow> db
     \<Rightarrow> order_data response \<times> db" where
  "place_order sk autoname table_code items d =
     (case find (\<lambda>t. rt_qr_code t = table_code \<and> rt_enabled t) (db_tables d) of
        None \<Rightarrow> (Rejected ''Invalid table'' [], d)
      | Some table \<Rightarrow>
          if items = [] then (Rejected ''No items in order'' [], d)
          else (case validate_order_items sk d items (rt_branch table) of
                  Inl e \<Rightarrow> (Rejected ''Error placing order. Please try again.'' [], d)
                | Inr (validated_items, item_errors) \<Rightarrow>
                    if item_errors \<noteq> [] then (Rejected (hd item_errors) item_errors, d)
                    else (let order = new_order table (db_settings d) validated_items;
                              (order', d1) = insert_order autoname order d
                          in case create_kitchen_orders autoname order' d1 of
                               (Some e, d2) \<Rightarrow>
                                 (Rejected ''Error placing order. Please try again.'' [], d2)
                             | (None, d2) \<Rightarrow>
                                 (Success \<lparr>od_order_id = ro_name order',
                                           od_estimated_time = ro_estimated_preparation_time order,
                                           od_grand_total = ro_grand_total order,
                                           od_status = ''New''\<rparr>, d2))))"

section \<open>Notions used in the statements\<close>

text \<open>A ticket without the names that \<open>insert\<close> gave to it and to its lines.\<close>

definition unnamed_kot :: "kitchen_order \<Rightarrow> kitchen_order" where
  "unnamed_kot kot =
     kot\<lparr>ko_name := [], ko_items := map (\<lambda>item. item\<lparr>ki_name := []\<rparr>) (ko_items kot)\<rparr>"

text \<open>The status of every Restaurant Order Item in the database, order by order.\<close>

definition order_item_statuses :: "db \<Rightarrow> string list list" where
  "order_item_statuses d = map (\<lambda>x. map oi_status (ro_items x)) (db_orders d)"

section \<open>Example data\<close>

definition ex_line :: "string \<Rightarrow> string \<Rightarrow> kot_item" where
  "ex_line n s =
     \<lparr>ki_name = n, ki_order_item = None, ki_menu_item = ''Burger'', ki_item_name = ''Burger'',
      ki_qty = 1, ki_status = s, ki_started_at = None, ki_completed_at = None\<rparr>"

definition ex_kot :: "string \<Rightarrow> string \<Rightarrow> kot_item list \<Rightarrow> kitchen_order" where
  "ex_kot n s items =
     \<lparr>ko_name = n, ko_restaurant_order = ''ORD-1'', ko_branch = ''Main'',
      ko_kitchen_station = ''Grill'', ko_status = s, ko_is_additional = False,
      ko_started_at = None, ko_completed_at = None, ko_served_at = None, ko_items = items\<rparr>"

definition ex_order_item :: order_item where
  "ex_order_item =
     \<lparr>oi_name = ''ROW-1'', oi_menu_item = ''Burger'', oi_item_code = ''BRG'',
      oi_item_name = ''Burger'', oi_qty = 1, oi_rate = 100, oi_amount = 100,
      oi_kitchen_station = Some ''Grill'', oi_preparation_time = 10, oi_tax_rate = None,
      oi_status = ''Pending''\<rparr>"

definition ex_order :: "string \<Rightarrow> restaurant_order" where
  "ex_order s =
     \<lparr>ro_name = ''ORD-1'', ro_table = ''T1'', ro_branch = ''Main'', ro_status = s,
      ro_total_qty = 1, ro_subtotal = 100, ro_service_charge = 10,
      ro_service_charge_percent = 10, ro_vat = 33 / 2, ro_vat_percent = 15,
      ro_tax_amount = 0, ro_tip_amount = None, ro_discount_amount = None,
      ro_grand_total = 110, ro_estimated_preparation_time = 10, ro_items = [ex_order_item]\<rparr>"

definition ex_menu :: "menu_item list" where
  "ex_menu =
     [\<lparr>mi_name = ''Burger'', mi_item_code = ''BRG'', mi_item_name = ''Burger'', mi_price = 100,
       mi_enabled = True, mi_kitchen_station = Some ''Grill'',
       mi_preparation_time_minutes = Some 15\<rparr>,
      \<lparr>mi_name = ''Salad'', mi_item_code = ''SLD'', mi_item_name = ''Salad'', mi_price = 20,
       mi_enabled = True, mi_kitchen_station = None, mi_preparation_time_minutes = None\<rparr>,
      \<lparr>mi_name = ''Soup'', mi_item_code = ''SOUP'', mi_item_name = ''Soup'', mi_price = 12,
       mi_enabled = False, mi_kitchen_station = Some ''Hot'',
       mi_preparation_time_minutes = Some 5\<rparr>]"

definition ex_tables :: "restaurant_table list" where
  "ex_tables = [\<lparr>rt_name = ''T1'', rt_qr_code = ''QR-1'', rt_enabled = True, rt_branch = ''Main''\<rparr>]"

definition ex_settings :: restaurant_settings where
  "ex_settings = \<lparr>service_charge_percent = Some 10, vat_percent = Some 15\<rparr>"

text \<open>A database with the order ORD-1 in status \<open>s\<close> and the given tickets.\<close>

definition ex_db :: "string \<Rightarrow> kitchen_order list \<Rightarrow> db" where
  "ex_db s kots =
     \<lparr>db_orders = [ex_order s], db_kots = kots, db_menu = ex_menu, db_tables = ex_tables,
      db_settings = ex_settings\<rparr>"

text \<open>A database without orders, under the given settings.\<close>

definition ex_shop :: "restaurant_settings \<Rightarrow> db" where
  "ex_shop st =
     \<lparr>db_orders = [], db_kots = [], db_menu = ex_menu, db_tables = ex_tables, db_settings = st\<rparr>"

definition ex_autoname :: "string \<Rightarrow> nat \<Rightarrow> string" where
  "ex_autoname prefix n = prefix @ ''-'' @ replicate n (CHR ''I'')"

definition ex_stock :: stock where
  "ex_stock =
     \<lparr>sk_default_bom = (\<lambda>item_code. None), sk_bom_items = (\<lambda>bom. []),
      sk_branch_warehouse = (\<lambda>branch. None), sk_get_stock_balance = None,
      sk_bin_total = (\<lambda>item_code. None)\<rparr>"

definition ex_entry :: "string \<Rightarrow> int \<Rightarrow> order_entry" where
  "ex_entry n q =
     \<lparr>en_item = Some n, en_menu_item = None, en_qty = Some q, en_modifiers = [], en_notes = []\<rparr>"

definition ex_validated :: validated_item where
  "ex_validated =
     \<lparr>vi_menu_item = ''Salad'', vi_item_code = ''SLD'', vi_item_name = ''Salad'', vi_qty = 2,
      vi_rate = 20, vi_total = 40, vi_modifiers = [], vi_notes = [],
      vi_kitchen_station = None, vi_preparation_time = 10\<rparr>"

section \<open>Properties\<close>

subsection \<open>Looking up and saving documents\<close>

lemma find_replace:
  "find P xs = Some x \<Longrightarrow> P y \<Longrightarrow> find P (map (\<lambda>z. if P z then y else z) xs) = Some y"
  by (induction xs) (auto split: if_splits)

lemma find_holds: "find P xs = Some x \<Longrightarrow> P x"
  by (induction xs) (auto split: if_splits)

lemma calculate_totals_name [simp]: "ro_name (calculate_totals st order) = ro_name order"
  by (simp add: calculate_totals_def Let_def)

lemma calculate_totals_status [simp]: "ro_status (calculate_totals st order) = ro_status order"
  by (simp add: calculate_totals_def Let_def)

lemma calculate_totals_item_status [simp]:
  "map oi_status (ro_items (calculate_totals st order)) = map oi_status (ro_items order)"
  by (simp add: calculate_totals_def Let_def comp_def)

lemma save_order_kots [simp]: "db_kots (save_order order d) = db_kots d"
  by (simp add: save_order_def Let_def)

lemma reconciler_kots [simp]: "db_kots (update_restaurant_order_status n d) = db_kots d"
  by (simp add: update_restaurant_order_status_def Let_def split: option.splits)

lemma get_order_save:
  "get_order d n = Some order \<Longrightarrow> ro_name order' = n \<Longrightarrow>
   get_order (save_order order' d) n = Some (calculate_totals (db_settings d) order')"
  unfolding get_order_def save_order_def Let_def
  using find_replace [of "\<lambda>x. ro_name x = n" "db_orders d" order "calculate_totals (db_settings d) order'"]
  by simp

lemma get_kot_name: "get_kot d n = Some kot \<Longrightarrow> ko_name kot = n"
  using find_holds [of "\<lambda>k. ko_name k = n"] by (simp add: get_kot_def)

lemma get_kot_saved:
  assumes "get_kot d n = Some kot" and "ko_name kot' = n" and "db_kots d1 = map (\<lambda>k. if ko_name k = ko_name kot' then kot' else k) (db_kots d)"
  shows "get_kot d1 n = Some kot'"
  using assms find_replace [of "\<lambda>k. ko_name k = n" "db_kots d" kot kot']
  by (simp add: get_kot_def)

lemmas ex_defs = ex_line_def ex_kot_def ex_order_item_def ex_order_def ex_menu_def ex_tables_def
  ex_settings_def ex_db_def ex_shop_def ex_autoname_def ex_stock_def ex_entry_def ex_validated_def

subsection \<open>The precedence of the reconciler\<close>

lemma new_status_of_precedence:
  "new_status_of (map ko_status ks) =
     (if \<forall>k\<in>set ks. ko_status k = ''Ready'' then ''Ready''
      else if \<exists>k\<in>set ks. ko_status k = ''Preparing'' then ''Preparing''
      else if \<forall>k\<in>set ks. ko_status k = ''New'' then ''Confirmed''
      else ''Preparing'')"
  by (auto simp: new_status_of_def list_all_iff list_ex_iff)

text \<open>
  Claim C1, amended. For every order whose status is none of Served, Completed, Cancelled and
  Paid, and every non-empty list of tickets belonging to it, the reconciler sets the order
  status by first match: all tickets Ready gives Ready; otherwise any ticket Preparing gives
  Preparing; otherwise all tickets New gives Confirmed; otherwise Preparing.
\<close>

theorem reconciler_precedence:
  assumes "get_order d n = Some order"
    and "ro_status order \<notin> {''Served'', ''Completed'', ''Cancelled'', ''Paid''}"
    and "ks = filter (\<lambda>k. ko_restaurant_order k = n) (db_kots d)"
    and "ks \<noteq> []"
  shows "\<exists>order'. get_order (update_restaurant_order_status n d) n = Some order' \<and>
           ro_status order' =
             (if \<forall>k\<in>set ks. ko_status k = ''Ready'' then ''Ready''
              else if \<exists>k\<in>set ks. ko_status k = ''Preparing'' then ''Preparing''
              else if \<forall>k\<in>set ks. ko_status k = ''New'' then ''Confirmed''
              else ''Preparing'')"
proof -
  have name: "ro_name order = n"
    using assms(1) find_holds [of "\<lambda>x. ro_name x = n"] by (simp add: get_order_def)
  let ?o = "order\<lparr>ro_status := new_status_of (map ko_status ks)\<rparr>"
  have upd: "update_restaurant_order_status n d = save_order ?o d"
    using assms by (simp add: update_restaurant_order_status_def Let_def)
  have "get_order (save_order ?o d) n = Some (calculate_totals (db_settings d) ?o)"
    using assms(1) name by (intro get_order_save) simp_all
  then show ?thesis
    unfolding upd using new_status_of_precedence [of ks] by simp
qed

text \<open>An order with two tickets, one Ready and one New, is set to Preparing.\<close>

theorem reconciler_precedence_witness:
  "\<exists>order'. get_order (update_restaurant_order_status ''ORD-1''
                (ex_db ''New'' [ex_kot ''KOT-1'' ''Ready'' [ex_line ''L1'' ''Ready''],
                                ex_kot ''KOT-2'' ''New'' [ex_line ''L2'' ''Pending'']])) ''ORD-1''
              = Some order' \<and> ro_status order' = ''Preparing''"
proof -
  let ?ks = "[ex_kot ''KOT-1'' ''Ready'' [ex_line ''L1'' ''Ready''],
              ex_kot ''KOT-2'' ''New'' [ex_line ''L2'' ''Pending'']]"
  have h1: "get_order (ex_db ''New'' ?ks) ''ORD-1'' = Some (ex_order ''New'')"
    by (simp add: get_order_def ex_defs)
  have h2: "ro_status (ex_order ''New'') \<notin> {''Served'', ''Completed'', ''Cancelled'', ''Paid''}"
    by (simp add: ex_defs)
  have h3: "?ks = filter (\<lambda>k. ko_restaurant_order k = ''ORD-1'') (db_kots (ex_db ''New'' ?ks))"
    by (simp add: ex_defs)
  have h4: "?ks \<noteq> []" by simp
  show ?thesis
    using reconciler_precedence [OF h1 h2 h3 h4] by (simp add: ex_defs)
qed

text \<open>
  The claim as stated, for every order, fails on an order that is already Paid: with one
  ticket Ready and one New it stays Paid and is not set to Preparing.
\<close>

theorem reconciler_paid_order_counterexample:
  "map ko_status (filter (\<lambda>k. ko_restaurant_order k = ''ORD-1'')
       (db_kots (ex_db ''Paid'' [ex_kot ''KOT-1'' ''Ready'' [ex_line ''L1'' ''Ready''],
                                 ex_kot ''KOT-2'' ''New'' [ex_line ''L2'' ''Pending'']])))
     = [''Ready'', ''New''] \<and>
   map_option ro_status
     (get_order (update_restaurant_order_status ''ORD-1''
        (ex_db ''Paid'' [ex_kot ''KOT-1'' ''Ready'' [ex_line ''L1'' ''Ready''],
                         ex_kot ''KOT-2'' ''New'' [ex_line ''L2'' ''Pending'']])) ''ORD-1'')
     = Some ''Paid'' \<and>
   ''Paid'' \<noteq> ''Preparing''"
  by (simp add: update_restaurant_order_status_def get_order_def Let_def ex_defs)

subsection \<open>The imports\<close>

lemma import_kitchen:
  "import_module [''restaurant_pos'', ''api'', ''kitchen'']
     = Inl (ModuleNotFoundError [''restaurant_pos'', ''api''])"
  by (simp add: import_module_def repository_modules_def)

lemma import_menu:
  "import_module [''restaurant_pos'', ''api'', ''menu'']
     = Inl (ModuleNotFoundError [''restaurant_pos'', ''api''])"
  by (simp add: import_module_def repository_modules_def)

lemma kitchen_order_on_update_raises:
  "kitchen_order_on_update kot d = Inl (ModuleNotFoundError [''restaurant_pos'', ''api''])"
  by (simp add: kitchen_order_on_update_def import_kitchen)

lemma save_kot_raises:
  "ko_items kot \<noteq> [] \<Longrightarrow>
   save_kot kot d =
     (Some (ModuleNotFoundError [''restaurant_pos'', ''api'']),
      d\<lparr>db_kots := map (\<lambda>k. if ko_name k = ko_name kot then kot else k) (db_kots d)\<rparr>)"
  by (simp add: save_kot_def kitchen_order_on_update_raises)

lemma save_kot_orders: "db_orders (snd (save_kot kot d)) = db_orders d"
  by (simp add: save_kot_def kitchen_order_on_update_raises)

lemma save_kot_always_raises: "\<exists>e. fst (save_kot kot d) = Some e"
  by (simp add: save_kot_def kitchen_order_on_update_raises)

subsection \<open>Orders in a sticky status\<close>

lemma reconciler_sticky:
  "get_order d n = Some order \<Longrightarrow>
   ro_status order \<in> {''Served'', ''Completed'', ''Cancelled'', ''Paid''} \<Longrightarrow>
   update_restaurant_order_status n d = d"
  by (simp add: update_restaurant_order_status_def Let_def)

lemma update_order_status_orders:
  "db_orders (snd (update_order_status kot_id status item_id now d)) = db_orders d"
proof (cases "get_kot d kot_id")
  case None
  then show ?thesis by (simp add: update_order_status_def)
next
  case (Some kot0)
  obtain e where "fst (save_kot (apply_status status item_id now kot0) d) = Some e"
    using save_kot_always_raises by blast
  then have "update_order_status kot_id status item_id now d
               = (Raised e, snd (save_kot (apply_status status item_id now kot0) d))"
    using Some by (simp add: update_order_status_def Let_def case_prod_unfold)
  then show ?thesis by (simp add: save_kot_orders)
qed

lemma bump_order_orders: "db_orders (snd (bump_order kot_id now d)) = db_orders d"
proof (cases "get_kot d kot_id")
  case None
  then show ?thesis by (simp add: bump_order_def)
next
  case (Some kot0)
  let ?k = "kot0\<lparr>ko_status := ''Served'', ko_served_at := Some now,
                  ko_items := map (\<lambda>item. item\<lparr>ki_status := ''Served''\<rparr>) (ko_items kot0)\<rparr>"
  obtain e where "fst (save_kot ?k d) = Some e"
    using save_kot_always_raises by blast
  then have "bump_order kot_id now d = (Raised e, snd (save_kot ?k d))"
    using Some by (simp add: bump_order_def Let_def case_prod_unfold)
  then show ?thesis by (simp add: save_kot_orders)
qed

lemma recall_order_orders: "db_orders (snd (recall_order kot_id d)) = db_orders d"
proof (cases "get_kot d kot_id")
  case None
  then show ?thesis by (simp add: recall_order_def)
next
  case (Some kot0)
  let ?k = "kot0\<lparr>ko_status := ''Ready'', ko_served_at := None,
                  ko_items := map (\<lambda>item. item\<lparr>ki_status := ''Ready''\<rparr>) (ko_items kot0)\<rparr>"
  obtain e where "fst (save_kot ?k d) = Some e"
    using save_kot_always_raises by blast
  then have "recall_order kot_id d = (Raised e, snd (save_kot ?k d))"
    using Some by (simp add: recall_order_def Let_def case_prod_unfold)
  then show ?thesis by (simp add: save_kot_orders)
qed

text \<open>
  Claim C2. For every order whose status is one of Served, Completed, Cancelled and Paid,
  the reconciler leaves the database as it is, and no ticket-driven update changes any
  order: not the save of a ticket with the reconciliation it fires, and none of
  \<open>update_order_status\<close>, \<open>bump_order\<close> and \<open>recall_order\<close>.
\<close>

theorem reconciler_keeps_sticky_order:
  assumes "get_order d n = Some order"
    and "ro_status order \<in> {''Served'', ''Completed'', ''Cancelled'', ''Paid''}"
  shows "update_restaurant_order_status n d = d \<and>
         (\<forall>kot. ko_restaurant_order kot = n \<longrightarrow> db_orders (snd (save_kot kot d)) = db_orders d) \<and>
         db_orders (snd (update_order_status kot_id status item_id now d)) = db_orders d \<and>
         db_orders (snd (bump_order kot_id now d)) = db_orders d \<and>
         db_orders (snd (recall_order kot_id d)) = db_orders d"
  using reconciler_sticky [OF assms] save_kot_orders update_order_status_orders
    bump_order_orders recall_order_orders
  by simp

theorem reconciler_keeps_sticky_order_witness:
  "get_order (ex_db ''Paid'' [ex_kot ''KOT-1'' ''Served'' [ex_line ''L1'' ''Served'']]) ''ORD-1''
     = Some (ex_order ''Paid'') \<and>
   update_restaurant_order_status ''ORD-1''
       (ex_db ''Paid'' [ex_kot ''KOT-1'' ''Served'' [ex_line ''L1'' ''Served'']])
     = ex_db ''Paid'' [ex_kot ''KOT-1'' ''Served'' [ex_line ''L1'' ''Served'']] \<and>
   db_orders (snd (update_order_status ''KOT-1'' ''Preparing'' None 5
                     (ex_db ''Paid'' [ex_kot ''KOT-1'' ''Served'' [ex_line ''L1'' ''Served'']])))
     = [ex_order ''Paid''] \<and>
   db_orders (snd (bump_order ''KOT-1'' 5
                     (ex_db ''Paid'' [ex_kot ''KOT-1'' ''Served'' [ex_line ''L1'' ''Served'']])))
     = [ex_order ''Paid''] \<and>
   db_orders (snd (recall_order ''KOT-1''
                     (ex_db ''Paid'' [ex_kot ''KOT-1'' ''Served'' [ex_line ''L1'' ''Served'']])))
     = [ex_order ''Paid'']"
proof -
  let ?d = "ex_db ''Paid'' [ex_kot ''KOT-1'' ''Served'' [ex_line ''L1'' ''Served'']]"
  have h1: "get_order ?d ''ORD-1'' = Some (ex_order ''Paid'')"
    by (simp add: get_order_def ex_defs)
  have h2: "ro_status (ex_order ''Paid'') \<in> {''Served'', ''Completed'', ''Cancelled'', ''Paid''}"
    by (simp add: ex_defs)
  have h3: "db_orders ?d = [ex_order ''Paid'']"
    by (simp add: ex_defs)
  show ?thesis
    using reconciler_keeps_sticky_order [OF h1 h2, of "''KOT-1''" "''Preparing''" None 5] h1 h3
    by simp
qed

subsection \<open>Status updates of a line and of a ticket\<close>

lemma update_item_length [simp]: "length (update_item i s now xs) = length xs"
  by (induction xs) (simp_all add: Let_def)

lemma update_item_status:
  "distinct (map ki_name xs) \<Longrightarrow>
   map ki_status (update_item i s now xs) = map (\<lambda>x. if ki_name x = i then s else ki_status x) xs"
proof (induction xs)
  case Nil
  then show ?case by simp
next
  case (Cons x xs)
  show ?case
  proof (cases "ki_name x = i")
    case True
    then have "i \<notin> ki_name ` set xs" using Cons.prems by auto
    then have "map (\<lambda>x. if ki_name x = i then s else ki_status x) xs = map ki_status xs"
      by (intro map_cong) auto
    then show ?thesis using True by (simp add: Let_def)
  next
    case False
    then show ?thesis using Cons by simp
  qed
qed

text \<open>
  Claim C7. A status update of one line of a stored ticket writes the ticket with that line
  changed and no other, and no other ticket: the stored ticket is then Ready, with the
  completion time stamped, if all of its lines are then Ready, and otherwise has the
  status and the completion time it had. (The save then raises in \<open>on_update\<close>, and the
  endpoint answers with that failure.)
\<close>

theorem line_update_promotes_ticket_iff_all_ready:
  assumes "get_kot d kot_id = Some kot" and "ko_items kot \<noteq> []" and "item_id \<noteq> []"
  shows "\<exists>d' kot'.
           update_order_status kot_id status (Some item_id) now d
             = (Raised (ModuleNotFoundError [''restaurant_pos'', ''api'']), d') \<and>
           db_kots d' = map (\<lambda>k. if ko_name k = kot_id then kot' else k) (db_kots d) \<and>
           get_kot d' kot_id = Some kot' \<and>
           length (ko_items kot') = length (ko_items kot) \<and>
           (distinct (map ki_name (ko_items kot)) \<longrightarrow>
              map ki_status (ko_items kot')
                = map (\<lambda>x. if ki_name x = item_id then status else ki_status x) (ko_items kot)) \<and>
           (if \<forall>x\<in>set (ko_items kot'). ki_status x = ''Ready''
            then ko_status kot' = ''Ready'' \<and> ko_completed_at kot' = Some now
            else ko_status kot' = ko_status kot \<and> ko_completed_at kot' = ko_completed_at kot)"
proof -
  let ?k = "apply_status status (Some item_id) now kot"
  have items: "ko_items ?k = update_item item_id status now (ko_items kot)"
    using assms(3) by (simp add: apply_status_def Let_def)
  have name: "ko_name ?k = kot_id"
    using get_kot_name [OF assms(1)] assms(3) by (simp add: apply_status_def Let_def)
  have nonempty: "ko_items ?k \<noteq> []"
    using assms(2) items by (metis length_0_conv update_item_length)
  let ?d1 = "d\<lparr>db_kots := map (\<lambda>k. if ko_name k = ko_name ?k then ?k else k) (db_kots d)\<rparr>"
  have run: "update_order_status kot_id status (Some item_id) now d
               = (Raised (ModuleNotFoundError [''restaurant_pos'', ''api'']), ?d1)"
    using assms(1) save_kot_raises [OF nonempty, of d]
    by (simp add: update_order_status_def Let_def)
  have rows: "db_kots ?d1 = map (\<lambda>k. if ko_name k = kot_id then ?k else k) (db_kots d)"
    using name by simp
  have stored: "get_kot ?d1 kot_id = Some ?k"
    by (rule get_kot_saved [OF assms(1) name]) simp
  have promote:
    "if \<forall>x\<in>set (ko_items ?k). ki_status x = ''Ready''
     then ko_status ?k = ''Ready'' \<and> ko_completed_at ?k = Some now
     else ko_status ?k = ko_status kot \<and> ko_completed_at ?k = ko_completed_at kot"
    using assms(3) by (simp add: apply_status_def Let_def list_all_iff)
  have statuses:
    "distinct (map ki_name (ko_items kot)) \<longrightarrow>
       map ki_status (ko_items ?k)
         = map (\<lambda>x. if ki_name x = item_id then status else ki_status x) (ko_items kot)"
    using items update_item_status by simp
  have len: "length (ko_items ?k) = length (ko_items kot)"
    using items by simp
  show ?thesis
    using run rows stored len statuses promote by blast
qed

theorem line_update_promotes_ticket_iff_all_ready_witness:
  "\<exists>d' kot'.
     update_order_status ''KOT-1'' ''Ready'' (Some ''L3'') 7
         (ex_db ''Preparing''
            [ex_kot ''KOT-1'' ''Preparing''
               [ex_line ''L1'' ''Ready'', ex_line ''L2'' ''Ready'', ex_line ''L3'' ''Preparing''],
             ex_kot ''KOT-2'' ''New'' [ex_line ''M1'' ''Pending'']])
       = (Raised (ModuleNotFoundError [''restaurant_pos'', ''api'']), d') \<and>
     db_kots d' = [kot', ex_kot ''KOT-2'' ''New'' [ex_line ''M1'' ''Pending'']] \<and>
     map ki_status (ko_items kot') = [''Ready'', ''Ready'', ''Ready''] \<and>
     ko_status kot' = ''Ready'' \<and> ko_completed_at kot' = Some 7"
proof -
  let ?k = "ex_kot ''KOT-1'' ''Preparing''
              [ex_line ''L1'' ''Ready'', ex_line ''L2'' ''Ready'', ex_line ''L3'' ''Preparing'']"
  let ?k2 = "ex_kot ''KOT-2'' ''New'' [ex_line ''M1'' ''Pending'']"
  let ?d = "ex_db ''Preparing'' [?k, ?k2]"
  have h1: "get_kot ?d ''KOT-1'' = Some ?k"
    by (simp add: get_kot_def ex_defs)
  have h2: "ko_items ?k \<noteq> []"
    by (simp add: ex_defs)
  have h3: "''L3'' \<noteq> []"
    by simp
  obtain d' kot' where
    run: "update_order_status ''KOT-1'' ''Ready'' (Some ''L3'') 7 ?d
            = (Raised (ModuleNotFoundError [''restaurant_pos'', ''api'']), d')"
    and rows: "db_kots d' = map (\<lambda>k. if ko_name k = ''KOT-1'' then kot' else k) (db_kots ?d)"
    and sts: "distinct (map ki_name (ko_items ?k)) \<longrightarrow>
              map ki_status (ko_items kot')
                = map (\<lambda>x. if ki_name x = ''L3'' then ''Ready'' else ki_status x) (ko_items ?k)"
    and prom: "if \<forall>x\<in>set (ko_items kot'). ki_status x = ''Ready''
               then ko_status kot' = ''Ready'' \<and> ko_completed_at kot' = Some 7
               else ko_status kot' = ko_status ?k \<and> ko_completed_at kot' = ko_completed_at ?k"
    using line_update_promotes_ticket_iff_all_ready [OF h1 h2 h3, of "''Ready''" 7] by blast
  have rows': "db_kots d' = [kot', ?k2]"
    using rows by (simp add: ex_defs)
  have lines: "map ki_status (ko_items kot') = [''Ready'', ''Ready'', ''Ready'']"
    using sts by (simp add: ex_defs)
  have "set (map ki_status (ko_items kot')) = {''Ready''}"
    unfolding lines by simp
  then have "\<forall>x\<in>set (ko_items kot'). ki_status x = ''Ready''"
    by auto
  then have st: "ko_status kot' = ''Ready''" "ko_completed_at kot' = Some 7"
    using prom by simp_all
  show ?thesis
    by (intro exI [of _ d'] exI [of _ kot'] conjI run rows' lines st)
qed

text \<open>
  A ticket with three lines: after the first and after the second line is Ready the ticket
  is still New; after the third it is Ready.
\<close>

lemma three_line_ticket_promotion:
  "map_option ko_status
     (get_kot (snd (update_order_status ''KOT-1'' ''Ready'' (Some ''L1'') 1
        (ex_db ''Confirmed'' [ex_kot ''KOT-1'' ''New''
           [ex_line ''L1'' ''Pending'', ex_line ''L2'' ''Pending'', ex_line ''L3'' ''Pending'']])))
        ''KOT-1'') = Some ''New''"
  "map_option ko_status
     (get_kot (snd (update_order_status ''KOT-1'' ''Ready'' (Some ''L2'') 2
        (ex_db ''Confirmed'' [ex_kot ''KOT-1'' ''New''
           [ex_line ''L1'' ''Ready'', ex_line ''L2'' ''Pending'', ex_line ''L3'' ''Pending'']])))
        ''KOT-1'') = Some ''New''"
  "map_option ko_status
     (get_kot (snd (update_order_status ''KOT-1'' ''Ready'' (Some ''L3'') 3
        (ex_db ''Confirmed'' [ex_kot ''KOT-1'' ''New''
           [ex_line ''L1'' ''Ready'', ex_line ''L2'' ''Ready'', ex_line ''L3'' ''Pending'']])))
        ''KOT-1'') = Some ''Ready''"
  by (simp_all add: update_order_status_def apply_status_def get_kot_def save_kot_def
        kitchen_order_on_update_raises Let_def ex_defs)

text \<open>
  Claim C8. A status update of a whole stored ticket writes the ticket with the new status
  and no other ticket; with Preparing, every line that was Pending becomes Preparing with
  its start time stamped and every other line is untouched; with Ready, every line that
  was not Ready becomes Ready with its completion time stamped and the Ready lines are
  untouched. (The save then raises in \<open>on_update\<close>, and the endpoint answers with that
  failure.)
\<close>

theorem ticket_update_advances_lines:
  assumes "get_kot d kot_id = Some kot" and "ko_items kot \<noteq> []" and "\<not> truthy item_id"
  shows "\<exists>d' kot'.
           update_order_status kot_id status item_id now d
             = (Raised (ModuleNotFoundError [''restaurant_pos'', ''api'']), d') \<and>
           db_kots d' = map (\<lambda>k. if ko_name k = kot_id then kot' else k) (db_kots d) \<and>
           get_kot d' kot_id = Some kot' \<and>
           ko_status kot' = status \<and>
           length (ko_items kot') = length (ko_items kot) \<and>
           (status = ''Preparing'' \<longrightarrow>
              (\<forall>i<length (ko_items kot).
                 ko_items kot' ! i =
                   (if ki_status (ko_items kot ! i) = ''Pending''
                    then (ko_items kot ! i)\<lparr>ki_status := ''Preparing'', ki_started_at := Some now\<rparr>
                    else ko_items kot ! i))) \<and>
           (status = ''Ready'' \<longrightarrow>
              (\<forall>i<length (ko_items kot).
                 ko_items kot' ! i =
                   (if ki_status (ko_items kot ! i) \<noteq> ''Ready''
                    then (ko_items kot ! i)\<lparr>ki_status := ''Ready'', ki_completed_at := Some now\<rparr>
                    else ko_items kot ! i)))"
proof -
  let ?k = "apply_status status item_id now kot"
  have name: "ko_name ?k = kot_id"
    using get_kot_name [OF assms(1)] assms(3) by (simp add: apply_status_def Let_def)
  have len: "length (ko_items ?k) = length (ko_items kot)"
    using assms(3) by (simp add: apply_status_def Let_def)
  have nonempty: "ko_items ?k \<noteq> []"
    using assms(2) len by (metis length_0_conv)
  have st: "ko_status ?k = status"
    using assms(3) by (simp add: apply_status_def Let_def)
  let ?d1 = "d\<lparr>db_kots := map (\<lambda>k. if ko_name k = ko_name ?k then ?k else k) (db_kots d)\<rparr>"
  have run: "update_order_status kot_id status item_id now d
               = (Raised (ModuleNotFoundError [''restaurant_pos'', ''api'']), ?d1)"
    using assms(1) save_kot_raises [OF nonempty, of d]
    by (simp add: update_order_status_def Let_def)
  have rows: "db_kots ?d1 = map (\<lambda>k. if ko_name k = kot_id then ?k else k) (db_kots d)"
    using name by simp
  have stored: "get_kot ?d1 kot_id = Some ?k"
    by (rule get_kot_saved [OF assms(1) name]) simp
  have prep: "status = ''Preparing'' \<longrightarrow>
              (\<forall>i<length (ko_items kot).
                 ko_items ?k ! i =
                   (if ki_status (ko_items kot ! i) = ''Pending''
                    then (ko_items kot ! i)\<lparr>ki_status := ''Preparing'', ki_started_at := Some now\<rparr>
                    else ko_items kot ! i))"
    using assms(3) by (simp add: apply_status_def Let_def)
  have ready: "status = ''Ready'' \<longrightarrow>
              (\<forall>i<length (ko_items kot).
                 ko_items ?k ! i =
                   (if ki_status (ko_items kot ! i) \<noteq> ''Ready''
                    then (ko_items kot ! i)\<lparr>ki_status := ''Ready'', ki_completed_at := Some now\<rparr>
                    else ko_items kot ! i))"
    using assms(3) by (simp add: apply_status_def Let_def)
  show ?thesis
    using run rows stored st len prep ready by blast
qed

theorem ticket_update_advances_lines_witness:
  "\<exists>d' kot'.
     update_order_status ''KOT-1'' ''Preparing'' None 4
         (ex_db ''Confirmed'' [ex_kot ''KOT-1'' ''New''
            [ex_line ''L1'' ''Pending'', ex_line ''L2'' ''Ready'']])
       = (Raised (ModuleNotFoundError [''restaurant_pos'', ''api'']), d') \<and>
     db_kots d' = [kot'] \<and>
     ko_status kot' = ''Preparing'' \<and>
     ko_items kot' ! 0 = (ex_line ''L1'' ''Pending'')\<lparr>ki_status := ''Preparing'', ki_started_at := Some 4\<rparr> \<and>
     ko_items kot' ! 1 = ex_line ''L2'' ''Ready''"
proof -
  let ?k = "ex_kot ''KOT-1'' ''New'' [ex_line ''L1'' ''Pending'', ex_line ''L2'' ''Ready'']"
  let ?d = "ex_db ''Confirmed'' [?k]"
  have h1: "get_kot ?d ''KOT-1'' = Some ?k"
    by (simp add: get_kot_def ex_defs)
  have h2: "ko_items ?k \<noteq> []"
    by (simp add: ex_defs)
  have h3: "\<not> truthy None"
    by simp
  obtain d' kot' where
    run: "update_order_status ''KOT-1'' ''Preparing'' None 4 ?d
            = (Raised (ModuleNotFoundError [''restaurant_pos'', ''api'']), d')"
    and rows: "db_kots d' = map (\<lambda>k. if ko_name k = ''KOT-1'' then kot' else k) (db_kots ?d)"
    and st: "ko_status kot' = ''Preparing''"
    and lines: "\<forall>i<length (ko_items ?k).
                 ko_items kot' ! i =
                   (if ki_status (ko_items ?k ! i) = ''Pending''
                    then (ko_items ?k ! i)\<lparr>ki_status := ''Preparing'', ki_started_at := Some 4\<rparr>
                    else ko_items ?k ! i)"
    using ticket_update_advances_lines [OF h1 h2 h3, of "''Preparing''" 4] by blast
  have rows': "db_kots d' = [kot']"
    using rows by (simp add: ex_defs)
  have l0: "ko_items kot' ! 0
              = (ex_line ''L1'' ''Pending'')\<lparr>ki_status := ''Preparing'', ki_started_at := Some 4\<rparr>"
    using lines [rule_format, of 0] by (simp add: ex_defs)
  have l1: "ko_items kot' ! 1 = ex_line ''L2'' ''Ready''"
    using lines [rule_format, of 1] by (simp add: ex_defs)
  show ?thesis
    using run rows' st l0 l1 by blast
qed

subsection \<open>Recall\<close>

text \<open>
  Claim C9. Recalling a stored ticket writes the ticket with status Ready, with no served
  timestamp and with every one of its lines Ready, and no other ticket. (The save then
  raises in \<open>on_update\<close>, and the endpoint answers with that failure.)
\<close>

theorem recall_resets_ticket:
  assumes "get_kot d kot_id = Some kot" and "ko_items kot \<noteq> []"
  shows "\<exists>d' kot'.
           recall_order kot_id d
             = (Raised (ModuleNotFoundError [''restaurant_pos'', ''api'']), d') \<and>
           db_kots d' = map (\<lambda>k. if ko_name k = kot_id then kot' else k) (db_kots d) \<and>
           get_kot d' kot_id = Some kot' \<and>
           ko_status kot' = ''Ready'' \<and>
           ko_served_at kot' = None \<and>
           length (ko_items kot') = length (ko_items kot) \<and>
           (\<forall>x\<in>set (ko_items kot'). ki_status x = ''Ready'')"
proof -
  let ?k = "kot\<lparr>ko_status := ''Ready'', ko_served_at := None,
                 ko_items := map (\<lambda>item. item\<lparr>ki_status := ''Ready''\<rparr>) (ko_items kot)\<rparr>"
  have name: "ko_name ?k = kot_id"
    using get_kot_name [OF assms(1)] by simp
  have nonempty: "ko_items ?k \<noteq> []"
    using assms(2) by simp
  let ?d1 = "d\<lparr>db_kots := map (\<lambda>k. if ko_name k = ko_name ?k then ?k else k) (db_kots d)\<rparr>"
  have run: "recall_order kot_id d
               = (Raised (ModuleNotFoundError [''restaurant_pos'', ''api'']), ?d1)"
    using assms(1) save_kot_raises [OF nonempty, of d]
    by (simp add: recall_order_def Let_def)
  have rows: "db_kots ?d1 = map (\<lambda>k. if ko_name k = kot_id then ?k else k) (db_kots d)"
    using name by simp
  have stored: "get_kot ?d1 kot_id = Some ?k"
    by (rule get_kot_saved [OF assms(1) name]) simp
  have fields: "ko_status ?k = ''Ready'' \<and> ko_served_at ?k = None \<and>
                length (ko_items ?k) = length (ko_items kot) \<and>
                (\<forall>x\<in>set (ko_items ?k). ki_status x = ''Ready'')"
    by simp
  show ?thesis
    using run rows stored fields by blast
qed

theorem recall_resets_ticket_witness:
  "\<exists>d' kot'.
     recall_order ''KOT-1''
         (ex_db ''Served''
            [(ex_kot ''KOT-1'' ''Served'' [ex_line ''L1'' ''Served'', ex_line ''L2'' ''Served''])
               \<lparr>ko_served_at := Some 5\<rparr>,
             (ex_kot ''KOT-2'' ''Served'' [ex_line ''M1'' ''Served''])\<lparr>ko_served_at := Some 6\<rparr>])
       = (Raised (ModuleNotFoundError [''restaurant_pos'', ''api'']), d') \<and>
     db_kots d'
       = [kot', (ex_kot ''KOT-2'' ''Served'' [ex_line ''M1'' ''Served''])\<lparr>ko_served_at := Some 6\<rparr>] \<and>
     ko_status kot' = ''Ready'' \<and>
     ko_served_at kot' = None \<and>
     length (ko_items kot') = 2 \<and>
     map ki_status (ko_items kot') = [''Ready'', ''Ready'']"
proof -
  let ?k = "(ex_kot ''KOT-1'' ''Served'' [ex_line ''L1'' ''Served'', ex_line ''L2'' ''Served''])
              \<lparr>ko_served_at := Some 5\<rparr>"
  let ?k2 = "(ex_kot ''KOT-2'' ''Served'' [ex_line ''M1'' ''Served''])\<lparr>ko_served_at := Some 6\<rparr>"
  let ?d = "ex_db ''Served'' [?k, ?k2]"
  have h1: "get_kot ?d ''KOT-1'' = Some ?k"
    by (simp add: get_kot_def ex_defs)
  have h2: "ko_items ?k \<noteq> []"
    by (simp add: ex_defs)
  obtain d' kot' where
    run: "recall_order ''KOT-1'' ?d = (Raised (ModuleNotFoundError [''restaurant_pos'', ''api'']), d')"
    and rows: "db_kots d' = map (\<lambda>k. if ko_name k = ''KOT-1'' then kot' else k) (db_kots ?d)"
    and st: "ko_status kot' = ''Ready''" "ko_served_at kot' = None"
    and len: "length (ko_items kot') = length (ko_items ?k)"
    and lines: "\<forall>x\<in>set (ko_items kot'). ki_status x = ''Ready''"
    using recall_resets_ticket [OF h1 h2] by blast
  have rows': "db_kots d' = [kot', ?k2]"
    using rows by (simp add: ex_defs)
  have len': "length (ko_items kot') = 2"
    using len by (simp add: ex_defs)
  have "map ki_status (ko_items kot') = replicate (length (ko_items kot')) ''Ready''"
    using lines by (simp add: map_replicate_const [symmetric] cong: map_cong)
  then have sts: "map ki_status (ko_items kot') = [''Ready'', ''Ready'']"
    unfolding len' by (simp add: numeral_2_eq_2)
  show ?thesis
    by (intro exI [of _ d'] exI [of _ kot'] conjI run rows' st len' sts)
qed

subsection \<open>Grouping by station\<close>

lemma add_to_station_keys:
  "map fst (add_to_station s x acc)
     = (if s \<in> fst ` set acc then map fst acc else map fst acc @ [s])"
  by (induction acc) (auto split: if_splits)

lemma map_of_add_to_station:
  "map_of (add_to_station s x acc) t
     = (if t = s then Some ((case map_of acc s of None \<Rightarrow> [] | Some ys \<Rightarrow> ys) @ [x])
        else map_of acc t)"
  by (induction acc) auto

lemma group_fold_keys:
  "fst ` set (foldl (\<lambda>acc x. add_to_station (key x) x acc) acc items)
     = fst ` set acc \<union> key ` set items"
proof (induction items arbitrary: acc)
  case Nil
  then show ?case by simp
next
  case (Cons x xs)
  have "fst ` set (add_to_station (key x) x acc) = insert (key x) (fst ` set acc)"
    using add_to_station_keys [of "key x" x acc]
    by (metis (no_types, lifting) Un_insert_right insert_absorb list.set(1,2) list.set_map set_append sup_bot.right_neutral)
  then show ?case using Cons.IH [of "add_to_station (key x) x acc"] by auto
qed

lemma group_fold_distinct:
  "distinct (map fst acc) \<Longrightarrow>
   distinct (map fst (foldl (\<lambda>acc x. add_to_station (key x) x acc) acc items))"
proof (induction items arbitrary: acc)
  case Nil
  then show ?case by simp
next
  case (Cons x xs)
  have "distinct (map fst (add_to_station (key x) x acc))"
    using Cons.prems by (simp add: add_to_station_keys)
  then show ?case using Cons.IH by simp
qed

lemma group_fold_map_of:
  "map_of (foldl (\<lambda>acc x. add_to_station (key x) x acc) acc items) t
     = (if t \<in> fst ` set acc \<union> key ` set items
        then Some ((case map_of acc t of None \<Rightarrow> [] | Some ys \<Rightarrow> ys) @ filter (\<lambda>x. key x = t) items)
        else None)"
proof (induction items arbitrary: acc)
  case Nil
  show ?case
    by (cases "map_of acc t") (auto simp: map_of_eq_None_iff dest: map_of_SomeD intro: rev_image_eqI)
next
  case (Cons x xs)
  have keys: "fst ` set (add_to_station (key x) x acc) = insert (key x) (fst ` set acc)"
    using group_fold_keys [of key acc "[x]"] by simp
  show ?case
    using Cons.IH [of "add_to_station (key x) x acc"]
    by (simp add: keys map_of_add_to_station)
qed

lemma group_by_station_distinct: "distinct (map fst (group_by_station key items))"
  unfolding group_by_station_def by (rule group_fold_distinct) simp

lemma group_by_station_keys: "fst ` set (group_by_station key items) = key ` set items"
  unfolding group_by_station_def by (simp add: group_fold_keys)

lemma group_by_station_group:
  assumes "(t, ys) \<in> set (group_by_station key items)"
  shows "ys = filter (\<lambda>x. key x = t) items"
proof -
  have "map_of (group_by_station key items) t = Some ys"
    using assms group_by_station_distinct [of key items] by simp
  then show ?thesis
    unfolding group_by_station_def by (simp add: group_fold_map_of split: if_splits)
qed

lemma group_by_station_nonempty:
  assumes "(t, ys) \<in> set (group_by_station key items)"
  shows "ys \<noteq> []"
proof -
  have "t \<in> key ` set items"
    using assms group_by_station_keys [of key items] by force
  then show ?thesis
    unfolding group_by_station_group [OF assms] by (auto simp: filter_empty_conv)
qed

subsection \<open>The fan-out\<close>

lemma map_enumerate_snd: "map (\<lambda>(i, x). f x) (enumerate n xs) = map f xs"
  by (induction xs arbitrary: n) simp_all

lemma unnamed_fields [simp]:
  "ko_kitchen_station (unnamed_kot k) = ko_kitchen_station k"
  "ko_restaurant_order (unnamed_kot k) = ko_restaurant_order k"
  "ko_status (unnamed_kot k) = ko_status k"
  "ko_is_additional (unnamed_kot k) = ko_is_additional k"
  by (simp_all add: unnamed_kot_def)

lemma unnamed_lines:
  "map (\<lambda>i. (ki_order_item i, ki_menu_item i, ki_qty i, ki_status i)) (ko_items (unnamed_kot k))
     = map (\<lambda>i. (ki_order_item i, ki_menu_item i, ki_qty i, ki_status i)) (ko_items k)"
  by (simp add: unnamed_kot_def comp_def)

lemma station_of_cases:
  "station_of x = (case x of None \<Rightarrow> ''Main Kitchen'' | Some s \<Rightarrow> if s = [] then ''Main Kitchen'' else s)"
  by (cases x) simp_all

lemma kitchen_orders_of_stations:
  "map ko_kitchen_station (kitchen_orders_of order)
     = map fst (group_by_station (\<lambda>item. station_of (oi_kitchen_station item)) (ro_items order))"
  by (simp add: kitchen_orders_of_def comp_def case_prod_unfold)

lemma kitchen_orders_for_items_stations:
  "map ko_kitchen_station (kitchen_orders_for_items order new_items)
     = map fst (group_by_station (\<lambda>item. station_of (vi_kitchen_station item)) new_items)"
  by (simp add: kitchen_orders_for_items_def comp_def case_prod_unfold)

lemma kitchen_orders_of_ticket:
  assumes "k \<in> set (kitchen_orders_of order)"
  shows "ko_items k \<noteq> [] \<and> ko_restaurant_order k = ro_name order \<and> ko_status k = ''New'' \<and>
         \<not> ko_is_additional k \<and>
         map (\<lambda>i. (ki_order_item i, ki_menu_item i, ki_qty i, ki_status i)) (ko_items k)
           = map (\<lambda>i. (Some (oi_name i), oi_menu_item i, oi_qty i, ''Pending''))
               (filter (\<lambda>i. station_of (oi_kitchen_station i) = ko_kitchen_station k) (ro_items order))"
proof -
  let ?key = "\<lambda>item. station_of (oi_kitchen_station item)"
  obtain t ys where grp: "(t, ys) \<in> set (group_by_station ?key (ro_items order))"
    and k: "ko_kitchen_station k = t" "ko_restaurant_order k = ro_name order" "ko_status k = ''New''"
      "\<not> ko_is_additional k"
      "ko_items k = map (\<lambda>item. \<lparr>ki_name = [], ki_order_item = Some (oi_name item),
                                ki_menu_item = oi_menu_item item, ki_item_name = oi_item_name item,
                                ki_qty = oi_qty item, ki_status = ''Pending'',
                                ki_started_at = None, ki_completed_at = None\<rparr>) ys"
    using assms by (auto simp: kitchen_orders_of_def)
  have ys: "ys = filter (\<lambda>x. ?key x = t) (ro_items order)" "ys \<noteq> []"
    using group_by_station_group [OF grp] group_by_station_nonempty [OF grp] by simp_all
  show ?thesis
    using k ys by (simp add: comp_def)
qed

lemma kitchen_orders_for_items_ticket:
  assumes "k \<in> set (kitchen_orders_for_items order new_items)"
  shows "ko_items k \<noteq> [] \<and> ko_restaurant_order k = ro_name order \<and> ko_status k = ''New'' \<and>
         ko_is_additional k \<and>
         map (\<lambda>i. (ki_order_item i, ki_menu_item i, ki_qty i, ki_status i)) (ko_items k)
           = map (\<lambda>i. (None, vi_menu_item i, vi_qty i, ''Pending''))
               (filter (\<lambda>i. station_of (vi_kitchen_station i) = ko_kitchen_station k) new_items)"
proof -
  let ?key = "\<lambda>item. station_of (vi_kitchen_station item)"
  obtain t ys where grp: "(t, ys) \<in> set (group_by_station ?key new_items)"
    and k: "ko_kitchen_station k = t" "ko_restaurant_order k = ro_name order" "ko_status k = ''New''"
      "ko_is_additional k"
      "ko_items k = map (\<lambda>item. \<lparr>ki_name = [], ki_order_item = None,
                                ki_menu_item = vi_menu_item item, ki_item_name = vi_item_name item,
                                ki_qty = vi_qty item, ki_status = ''Pending'',
                                ki_started_at = None, ki_completed_at = None\<rparr>) ys"
    using assms by (auto simp: kitchen_orders_for_items_def)
  have ys: "ys = filter (\<lambda>x. ?key x = t) new_items" "ys \<noteq> []"
    using group_by_station_group [OF grp] group_by_station_nonempty [OF grp] by simp_all
  show ?thesis
    using k ys by (simp add: comp_def)
qed

text \<open>
  The tickets that the fan-out builds from the lines of an order are one per distinct
  station among the lines, a line with no station or with the empty station counting for
  Main Kitchen.
\<close>

lemma fan_out_documents:
  "distinct (map ko_kitchen_station (kitchen_orders_of order))"
  "set (map ko_kitchen_station (kitchen_orders_of order))
     = (\<lambda>i. case oi_kitchen_station i of
               None \<Rightarrow> ''Main Kitchen''
             | Some s \<Rightarrow> if s = [] then ''Main Kitchen'' else s) ` set (ro_items order)"
  "distinct (map ko_kitchen_station (kitchen_orders_for_items order new_items))"
  "set (map ko_kitchen_station (kitchen_orders_for_items order new_items))
     = (\<lambda>i. case vi_kitchen_station i of
               None \<Rightarrow> ''Main Kitchen''
             | Some s \<Rightarrow> if s = [] then ''Main Kitchen'' else s) ` set new_items"
  unfolding kitchen_orders_of_stations kitchen_orders_for_items_stations
  using group_by_station_distinct group_by_station_keys
  by (simp_all add: station_of_cases)

lemma insert_kot_raises:
  "ko_items kot \<noteq> [] \<Longrightarrow>
   insert_kot autoname kot d =
     (Some (ModuleNotFoundError [''restaurant_pos'', ''api'']),
      d\<lparr>db_kots := db_kots d @
           [kot\<lparr>ko_name := autoname ''Kitchen Order'' (length (db_kots d)),
                ko_items := map (\<lambda>(i, item). item\<lparr>ki_name :=
                                   autoname (autoname ''Kitchen Order'' (length (db_kots d))) i\<rparr>)
                              (enumerate 0 (ko_items kot))\<rparr>]\<rparr>)"
  by (simp add: insert_kot_def Let_def kitchen_order_on_update_raises)

lemma insert_kot_added:
  "\<exists>e new. insert_kot autoname kot d = (Some e, d\<lparr>db_kots := db_kots d @ new\<rparr>) \<and>
           set (map unnamed_kot new) \<subseteq> {unnamed_kot kot}"
proof (cases "ko_items kot = []")
  case True
  then have "insert_kot autoname kot d
               = (Some (ValidationError ''Kitchen order must have at least one item''),
                  d\<lparr>db_kots := db_kots d @ []\<rparr>)"
    by (simp add: insert_kot_def)
  then show ?thesis by (metis empty_subsetI list.set(1) list.simps(8))
next
  case False
  let ?n = "autoname ''Kitchen Order'' (length (db_kots d))"
  let ?k = "kot\<lparr>ko_name := ?n,
                 ko_items := map (\<lambda>(i, item). item\<lparr>ki_name := autoname ?n i\<rparr>)
                                 (enumerate 0 (ko_items kot))\<rparr>"
  have "map (\<lambda>item. item\<lparr>ki_name := []\<rparr>) (ko_items ?k)
          = map (\<lambda>(i, item). item\<lparr>ki_name := []\<rparr>) (enumerate 0 (ko_items kot))"
    by (simp add: case_prod_unfold comp_def)
  then have "map (\<lambda>item. item\<lparr>ki_name := []\<rparr>) (ko_items ?k)
               = map (\<lambda>item. item\<lparr>ki_name := []\<rparr>) (ko_items kot)"
    by (simp only: map_enumerate_snd)
  then have same: "unnamed_kot ?k = unnamed_kot kot"
    by (simp add: unnamed_kot_def)
  have "insert_kot autoname kot d
          = (Some (ModuleNotFoundError [''restaurant_pos'', ''api'']),
             d\<lparr>db_kots := db_kots d @ [?k]\<rparr>)"
    using insert_kot_raises [OF False] .
  then show ?thesis
    using same by (intro exI [of _ "ModuleNotFoundError [''restaurant_pos'', ''api'']"]
                     exI [of _ "[?k]"]) simp
qed

lemma insert_kots_first:
  "insert_kots autoname (kot # kots) d = insert_kot autoname kot d"
  using insert_kot_added [of autoname kot d] by auto

lemma insert_kots_added:
  "\<exists>new. db_kots (snd (insert_kots autoname kots d)) = db_kots d @ new \<and>
         db_orders (snd (insert_kots autoname kots d)) = db_orders d \<and>
         set (map unnamed_kot new) \<subseteq> set (map unnamed_kot kots)"
proof (cases kots)
  case Nil
  then show ?thesis by simp
next
  case (Cons kot rest)
  obtain e new where "insert_kot autoname kot d = (Some e, d\<lparr>db_kots := db_kots d @ new\<rparr>)"
      and "set (map unnamed_kot new) \<subseteq> {unnamed_kot kot}"
    using insert_kot_added by blast
  then have "db_kots (snd (insert_kots autoname kots d)) = db_kots d @ new \<and>
         db_orders (snd (insert_kots autoname kots d)) = db_orders d \<and>
         set (map unnamed_kot new) \<subseteq> set (map unnamed_kot kots)"
    unfolding Cons insert_kots_first by auto
  then show ?thesis by blast
qed

text \<open>
  Claim C6, on the code. An order with lines for Grill, for no station, for the empty
  station and for Hot is grouped into three tickets, for Grill, Main Kitchen and Hot; the
  insert of the first one writes its row and raises in \<open>on_update\<close>, so that the fan-out
  ends with the ticket for Grill alone.
\<close>

theorem fan_out_stops_after_first_ticket:
  "map (\<lambda>k. (ko_kitchen_station k, map ki_order_item (ko_items k)))
       (kitchen_orders_of
          ((ex_order ''New'')\<lparr>ro_items :=
             [ex_order_item,
              ex_order_item\<lparr>oi_name := ''ROW-2'', oi_kitchen_station := None\<rparr>,
              ex_order_item\<lparr>oi_name := ''ROW-3'', oi_kitchen_station := Some []\<rparr>,
              ex_order_item\<lparr>oi_name := ''ROW-4'', oi_kitchen_station := Some ''Hot''\<rparr>]\<rparr>))
     = [(''Grill'', [Some ''ROW-1'']),
        (''Main Kitchen'', [Some ''ROW-2'', Some ''ROW-3'']),
        (''Hot'', [Some ''ROW-4''])] \<and>
   fst (create_kitchen_orders ex_autoname
          ((ex_order ''New'')\<lparr>ro_items :=
             [ex_order_item,
              ex_order_item\<lparr>oi_name := ''ROW-2'', oi_kitchen_station := None\<rparr>,
              ex_order_item\<lparr>oi_name := ''ROW-3'', oi_kitchen_station := Some []\<rparr>,
              ex_order_item\<lparr>oi_name := ''ROW-4'', oi_kitchen_station := Some ''Hot''\<rparr>]\<rparr>)
          (ex_db ''New'' []))
     = Some (ModuleNotFoundError [''restaurant_pos'', ''api'']) \<and>
   map (\<lambda>k. (ko_kitchen_station k, map ki_order_item (ko_items k)))
       (db_kots (snd (create_kitchen_orders ex_autoname
          ((ex_order ''New'')\<lparr>ro_items :=
             [ex_order_item,
              ex_order_item\<lparr>oi_name := ''ROW-2'', oi_kitchen_station := None\<rparr>,
              ex_order_item\<lparr>oi_name := ''ROW-3'', oi_kitchen_station := Some []\<rparr>,
              ex_order_item\<lparr>oi_name := ''ROW-4'', oi_kitchen_station := Some ''Hot''\<rparr>]\<rparr>)
          (ex_db ''New'' []))))
     = [(''Grill'', [Some ''ROW-1''])]"
  by (simp add: create_kitchen_orders_def kitchen_orders_of_def group_by_station_def
        insert_kot_def kitchen_order_on_update_raises Let_def ex_defs)

subsection \<open>Order lines under the kitchen operations\<close>

lemma serve_order_items_unlinked:
  "\<forall>i\<in>set items. ki_order_item i = None \<Longrightarrow> serve_order_items items d = d"
  by (induction items arbitrary: d) simp_all

lemma bump_stored_ticket:
  assumes "get_kot d kot_id = Some kot" and "ko_items kot \<noteq> []"
  shows "\<exists>d' kot'.
           bump_order kot_id now d
             = (Raised (ModuleNotFoundError [''restaurant_pos'', ''api'']), d') \<and>
           db_kots d' = map (\<lambda>k. if ko_name k = kot_id then kot' else k) (db_kots d) \<and>
           get_kot d' kot_id = Some kot' \<and>
           ko_status kot' = ''Served'' \<and> ko_served_at kot' = Some now \<and>
           length (ko_items kot') = length (ko_items kot) \<and>
           (\<forall>i\<in>set (ko_items kot'). ki_status i = ''Served'') \<and>
           db_orders d' = db_orders d \<and>
           order_item_statuses d' = order_item_statuses d"
proof -
  let ?k = "kot\<lparr>ko_status := ''Served'', ko_served_at := Some now,
                 ko_items := map (\<lambda>item. item\<lparr>ki_status := ''Served''\<rparr>) (ko_items kot)\<rparr>"
  let ?d1 = "d\<lparr>db_kots := map (\<lambda>k. if ko_name k = ko_name ?k then ?k else k) (db_kots d)\<rparr>"
  have name: "ko_name ?k = kot_id"
    using get_kot_name [OF assms(1)] by simp
  have nonempty: "ko_items ?k \<noteq> []"
    using assms(2) by simp
  have run: "bump_order kot_id now d
               = (Raised (ModuleNotFoundError [''restaurant_pos'', ''api'']), ?d1)"
    using assms(1) save_kot_raises [OF nonempty, of d]
    by (simp add: bump_order_def Let_def)
  have rows: "db_kots ?d1 = map (\<lambda>k. if ko_name k = kot_id then ?k else k) (db_kots d)"
    using name by simp
  have stored: "get_kot ?d1 kot_id = Some ?k"
    by (rule get_kot_saved [OF assms(1) name]) simp
  have kept: "db_orders ?d1 = db_orders d" "order_item_statuses ?d1 = order_item_statuses d"
    by (simp_all add: order_item_statuses_def)
  have fields: "ko_status ?k = ''Served'' \<and> ko_served_at ?k = Some now \<and>
                length (ko_items ?k) = length (ko_items kot) \<and>
                (\<forall>i\<in>set (ko_items ?k). ki_status i = ''Served'')"
    by simp
  show ?thesis
    using run rows stored fields kept by blast
qed

lemma appended_tickets_unlinked:
  assumes "k \<in> set (drop (length (db_kots d0))
                      (db_kots (snd (create_kitchen_orders_for_items autoname order new_items d0))))"
  shows "ko_is_additional k \<and> (\<forall>i\<in>set (ko_items k). ki_order_item i = None)"
proof -
  let ?docs = "kitchen_orders_for_items order new_items"
  obtain new where new: "db_kots (snd (insert_kots autoname ?docs d0)) = db_kots d0 @ new"
    and sub: "set (map unnamed_kot new) \<subseteq> set (map unnamed_kot ?docs)"
    using insert_kots_added by blast
  have "k \<in> set new"
    using assms new by (simp add: create_kitchen_orders_for_items_def)
  then have "unnamed_kot k \<in> set (map unnamed_kot ?docs)"
    using sub by auto
  then obtain doc where doc: "doc \<in> set ?docs" "unnamed_kot k = unnamed_kot doc"
    by auto
  have add: "ko_is_additional doc"
    and lines: "map (\<lambda>i. (ki_order_item i, ki_menu_item i, ki_qty i, ki_status i)) (ko_items doc)
           = map (\<lambda>i. (None, vi_menu_item i, vi_qty i, ''Pending''))
               (filter (\<lambda>i. station_of (vi_kitchen_station i) = ko_kitchen_station doc) new_items)"
    using kitchen_orders_for_items_ticket [OF doc(1)] by blast+
  have "ko_is_additional k"
    using add doc(2) by (metis unnamed_fields(4))
  moreover have "map (\<lambda>i. (ki_order_item i, ki_menu_item i, ki_qty i, ki_status i)) (ko_items k)
           = map (\<lambda>i. (None, vi_menu_item i, vi_qty i, ''Pending''))
               (filter (\<lambda>i. station_of (vi_kitchen_station i) = ko_kitchen_station doc) new_items)"
    using lines doc(2) unnamed_lines [of k] unnamed_lines [of doc] by simp
  then have "map ki_order_item (ko_items k)
          = map fst (map (\<lambda>i. (None, vi_menu_item i, vi_qty i, ''Pending''))
               (filter (\<lambda>i. station_of (vi_kitchen_station i) = ko_kitchen_station doc) new_items))"
    by (metis (mono_tags, lifting) fst_conv map_eq_conv map_map o_apply)
  then have "set (map ki_order_item (ko_items k)) \<subseteq> {None}"
    by auto
  then have "\<forall>i\<in>set (ko_items k). ki_order_item i = None"
    by auto
  ultimately show ?thesis by simp
qed

text \<open>
  Claim C10. Every ticket that \<open>create_kitchen_orders_for_items\<close> adds to the table of
  tickets is marked additional and none of its lines has an \<open>order_item\<close> reference; the
  loop of \<open>bump_order\<close> over such lines (lines 275 to 282) writes nothing; and bumping a
  stored ticket writes the ticket and each of its lines as Served, touches no other ticket
  and leaves every order, so the status of every Restaurant Order Item, as it was. (The
  save then raises in \<open>on_update\<close>, and the endpoint answers with that failure.)
\<close>

theorem appended_ticket_bump_keeps_order_items:
  "(\<forall>k\<in>set (drop (length (db_kots d0))
               (db_kots (snd (create_kitchen_orders_for_items autoname order new_items d0)))).
      ko_is_additional k \<and> (\<forall>i\<in>set (ko_items k). ki_order_item i = None)) \<and>
   ((\<forall>i\<in>set items. ki_order_item i = None) \<longrightarrow> serve_order_items items d = d) \<and>
   (get_kot d kot_id = Some kot \<and> ko_items kot \<noteq> [] \<longrightarrow>
      (\<exists>d' kot'.
         bump_order kot_id now d
           = (Raised (ModuleNotFoundError [''restaurant_pos'', ''api'']), d') \<and>
         db_kots d' = map (\<lambda>k. if ko_name k = kot_id then kot' else k) (db_kots d) \<and>
         get_kot d' kot_id = Some kot' \<and>
         ko_status kot' = ''Served'' \<and> ko_served_at kot' = Some now \<and>
         length (ko_items kot') = length (ko_items kot) \<and>
         (\<forall>i\<in>set (ko_items kot'). ki_status i = ''Served'') \<and>
         db_orders d' = db_orders d \<and>
         order_item_statuses d' = order_item_statuses d))"
  using appended_tickets_unlinked [of _ d0 autoname order new_items]
    serve_order_items_unlinked [of items d]
    bump_stored_ticket [of d kot_id kot now]
  by blast

theorem appended_ticket_bump_keeps_order_items_witness:
  "\<exists>d1 d' kot'.
     create_kitchen_orders_for_items ex_autoname (ex_order ''Confirmed'') [ex_validated]
         (ex_db ''Confirmed'' [ex_kot ''KOT-1'' ''New'' [ex_line ''L1'' ''Pending'']])
       = (Some (ModuleNotFoundError [''restaurant_pos'', ''api'']), d1) \<and>
     map (\<lambda>k. (ko_name k, ko_is_additional k, map ki_order_item (ko_items k))) (db_kots d1)
       = [(''KOT-1'', False, [None]), (''Kitchen Order-I'', True, [None])] \<and>
     order_item_statuses d1 = [[''Pending'']] \<and>
     bump_order ''Kitchen Order-I'' 9 d1
       = (Raised (ModuleNotFoundError [''restaurant_pos'', ''api'']), d') \<and>
     get_kot d' ''Kitchen Order-I'' = Some kot' \<and>
     ko_status kot' = ''Served'' \<and>
     map ki_status (ko_items kot') = [''Served''] \<and>
     order_item_statuses d' = [[''Pending'']]"
proof -
  let ?d0 = "ex_db ''Confirmed'' [ex_kot ''KOT-1'' ''New'' [ex_line ''L1'' ''Pending'']]"
  let ?new = "\<lparr>ko_name = ''Kitchen Order-I'', ko_restaurant_order = ''ORD-1'', ko_branch = ''Main'',
                ko_kitchen_station = ''Main Kitchen'', ko_status = ''New'', ko_is_additional = True,
                ko_started_at = None, ko_completed_at = None, ko_served_at = None,
                ko_items = [\<lparr>ki_name = ''Kitchen Order-I-'', ki_order_item = None,
                              ki_menu_item = ''Salad'', ki_item_name = ''Salad'', ki_qty = 2,
                              ki_status = ''Pending'', ki_started_at = None,
                              ki_completed_at = None\<rparr>]\<rparr>"
  let ?d1 = "?d0\<lparr>db_kots := [ex_kot ''KOT-1'' ''New'' [ex_line ''L1'' ''Pending''], ?new]\<rparr>"
  have run: "create_kitchen_orders_for_items ex_autoname (ex_order ''Confirmed'') [ex_validated] ?d0
               = (Some (ModuleNotFoundError [''restaurant_pos'', ''api'']), ?d1)"
    by (simp add: create_kitchen_orders_for_items_def kitchen_orders_for_items_def
          group_by_station_def insert_kot_def kitchen_order_on_update_raises Let_def ex_defs)
  have rows: "map (\<lambda>k. (ko_name k, ko_is_additional k, map ki_order_item (ko_items k))) (db_kots ?d1)
                = [(''KOT-1'', False, [None]), (''Kitchen Order-I'', True, [None])]"
    by (simp add: ex_defs)
  have before: "order_item_statuses ?d1 = [[''Pending'']]"
    by (simp add: order_item_statuses_def ex_defs)
  have h1: "get_kot ?d1 ''Kitchen Order-I'' = Some ?new"
    by (simp add: get_kot_def ex_defs)
  have h2: "ko_items ?new \<noteq> []"
    by simp
  obtain d' kot' where bump:
      "bump_order ''Kitchen Order-I'' 9 ?d1
         = (Raised (ModuleNotFoundError [''restaurant_pos'', ''api'']), d')"
      "get_kot d' ''Kitchen Order-I'' = Some kot'" "ko_status kot' = ''Served''"
      "length (ko_items kot') = length (ko_items ?new)"
      "\<forall>i\<in>set (ko_items kot'). ki_status i = ''Served''"
      "order_item_statuses d' = order_item_statuses ?d1"
    using appended_ticket_bump_keeps_order_items
            [where d = ?d1 and kot_id = "''Kitchen Order-I''" and kot = ?new and now = 9
               and d0 = ?d0 and autoname = ex_autoname and order = "ex_order ''Confirmed''"
               and new_items = "[ex_validated]" and items = "[]"] h1 h2
    by blast
  have "map ki_status (ko_items kot') = replicate (length (ko_items kot')) ''Served''"
    using bump(5) by (simp add: map_replicate_const [symmetric] cong: map_cong)
  then have served: "map ki_status (ko_items kot') = [''Served'']"
    unfolding bump(4) by simp
  have kept: "order_item_statuses d' = [[''Pending'']]"
    using bump(6) before by simp
  show ?thesis
    by (intro exI [of _ ?d1] exI [of _ d'] exI [of _ kot'] conjI run rows before bump(1-3)
          served kept)
qed

subsection \<open>Validation\<close>

lemma check_entry_dropped:
  "(case en_qty item of None \<Rightarrow> 1 | Some q \<Rightarrow> q) < 1 \<Longrightarrow> check_entry sk d branch item = Dropped"
  by (simp add: check_entry_def Let_def)


text \<open>
  Entries with a quantity below 1 are skipped before their item is looked up: validation
  gives what it gives on the list without them.
\<close>

lemma validate_order_items_drops:
  "validate_order_items sk d items branch
     = validate_order_items sk d
         (filter (\<lambda>item. 1 \<le> (case en_qty item of None \<Rightarrow> 1 | Some q \<Rightarrow> q)) items) branch"
proof (induction items)
  case Nil
  then show ?case by simp
next
  case (Cons item items)
  show ?case
  proof (cases "1 \<le> (case en_qty item of None \<Rightarrow> 1 | Some q \<Rightarrow> q)")
    case True
    then show ?thesis by (simp add: Cons.IH [symmetric] split: item_check.split)
  next
    case False
    then have "check_entry sk d branch item = Dropped"
      by (intro check_entry_dropped) simp
    then show ?thesis using False by (simp add: Cons.IH [symmetric])
  qed
qed


text \<open>
  Whenever validation raises or returns an error, \<open>place_order\<close> leaves the database as it
  was: no order and no ticket is created.
\<close>

lemma place_order_creates_nothing:
  assumes "find (\<lambda>t. rt_qr_code t = table_code \<and> rt_enabled t) (db_tables d) = Some table"
    and "validate_order_items sk d items (rt_branch table) = Inl e
         \<or> (\<exists>validated errors. validate_order_items sk d items (rt_branch table)
                                  = Inr (validated, errors) \<and> errors \<noteq> [])"
  shows "snd (place_order sk autoname table_code items d) = d"
  using assms by (auto simp: place_order_def)

text \<open>
  Claim C5, on the code. A request for a Burger, which is on the menu and enabled, and for
  two Pizzas, which are not on the menu: the round for the Burger raises at the import of
  line 176 before the Pizza is looked at, and \<open>place_order\<close> answers with the generic
  failure and no list of errors, where the Pizza alone is rejected with its error. The
  database is as it was in both cases.
\<close>

theorem validation_raises_before_errors:
  "check_entry ex_stock (ex_shop ex_settings) ''Main'' (ex_entry ''Burger'' 1)
     = Raises (ModuleNotFoundError [''restaurant_pos'', ''api'']) \<and>
   check_entry ex_stock (ex_shop ex_settings) ''Main'' (ex_entry ''Pizza'' 2)
     = Failed ''Item not found: Pizza'' \<and>
   place_order ex_stock ex_autoname ''QR-1'' [ex_entry ''Burger'' 1, ex_entry ''Pizza'' 2]
       (ex_shop ex_settings)
     = (Rejected ''Error placing order. Please try again.'' [], ex_shop ex_settings) \<and>
   place_order ex_stock ex_autoname ''QR-1'' [ex_entry ''Pizza'' 2] (ex_shop ex_settings)
     = (Rejected ''Item not found: Pizza'' [''Item not found: Pizza''], ex_shop ex_settings)"
  by (simp add: place_order_def check_entry_def menu_item_name_of_def get_menu_item_def
        import_menu Let_def ex_defs)

subsection \<open>The totals of a placed order\<close>



text \<open>
  Claim C3, on the code. With a service charge of 10 percent and a VAT of 15 percent, the
  request for one Burger of 100.00 raises in the validation, at the import of line 176:
  \<open>place_order\<close> answers with the generic failure and stores nothing.
\<close>

theorem place_order_raises_for_a_valid_entry:
  "place_order ex_stock ex_autoname ''QR-1'' [ex_entry ''Burger'' 1] (ex_shop ex_settings)
     = (Rejected ''Error placing order. Please try again.'' [], ex_shop ex_settings)"
  by (simp add: place_order_def check_entry_def menu_item_name_of_def get_menu_item_def
        import_menu Let_def ex_defs)

text \<open>
  The document that \<open>place_order\<close> would build for that Burger has service charge 10.00,
  VAT 16.50 and grand total 126.50; \<open>calculate_totals\<close>, which \<open>validate\<close> runs on insert,
  turns its grand total into 110.00.
\<close>

lemma insert_recomputes_grand_total:
  "(\<lambda>x. (ro_subtotal x, ro_service_charge x, ro_vat x, ro_grand_total x))
     (new_order \<lparr>rt_name = ''T1'', rt_qr_code = ''QR-1'', rt_enabled = True, rt_branch = ''Main''\<rparr>
        ex_settings
        [\<lparr>vi_menu_item = ''Burger'', vi_item_code = ''BRG'', vi_item_name = ''Burger'',
          vi_qty = 1, vi_rate = 100, vi_total = 100, vi_modifiers = [], vi_notes = [],
          vi_kitchen_station = Some ''Grill'', vi_preparation_time = 15\<rparr>])
     = (100, 10, 33 / 2, 253 / 2)"
  "(\<lambda>x. (ro_subtotal x, ro_service_charge x, ro_vat x, ro_grand_total x))
     (calculate_totals ex_settings
        (new_order \<lparr>rt_name = ''T1'', rt_qr_code = ''QR-1'', rt_enabled = True, rt_branch = ''Main''\<rparr>
           ex_settings
           [\<lparr>vi_menu_item = ''Burger'', vi_item_code = ''BRG'', vi_item_name = ''Burger'',
             vi_qty = 1, vi_rate = 100, vi_total = 100, vi_modifiers = [], vi_notes = [],
             vi_kitchen_station = Some ''Grill'', vi_preparation_time = 15\<rparr>]))
     = (100, 10, 33 / 2, 110)"
  by (simp_all add: new_order_def calculate_totals_def calculate_tax_def Let_def ex_defs)




end
